theory Spec2Isabelle
  imports Main "HOL-Library.AList" "HOL-Library.Sublist"
begin

section \<open>Data model\<close>

text \<open>
  The bot of \<^verbatim>\<open>main.py\<close> keeps three kinds of state: the documents of the
  \<^verbatim>\<open>users\<close> collection of the store, the per-user dictionary
  \<^verbatim>\<open>context.user_data\<close>, and the messages it has sent to the chat. Handlers are
  functions from an update and that state to the new state and the value they return.
\<close>

subsection \<open>Strings\<close>

text \<open>
  \<^verbatim>\<open>str.lower()\<close> on the letters \<^verbatim>\<open>A\<close> to \<^verbatim>\<open>Z\<close>; every other character
  of a \<^typ>\<open>string\<close> is left as it is.
\<close>

definition lower_char :: "char \<Rightarrow> char" where
  "lower_char c =
     (if 65 \<le> (of_char c :: nat) \<and> (of_char c :: nat) \<le> 90
      then char_of ((of_char c :: nat) + 32) else c)"

definition lower :: "string \<Rightarrow> string" where
  "lower s = map lower_char s"

text \<open>
  \<^verbatim>\<open>action, data = query.data.split('_', 1)\<close>: the text before the first underscore
  and the text after it. Without an underscore the split has one element and the
  unpacking raises \<^verbatim>\<open>ValueError\<close> (the value \<open>None\<close> here).
\<close>

definition split1 :: "string \<Rightarrow> (string \<times> string) option" where
  "split1 s =
     (if CHR ''_'' \<in> set s
      then Some (takeWhile (\<lambda>c. c \<noteq> CHR ''_'') s, tl (dropWhile (\<lambda>c. c \<noteq> CHR ''_'') s))
      else None)"

subsection \<open>The identity store\<close>

text \<open>
  A document of the \<^verbatim>\<open>users\<close> collection, with the three fields that registration
  writes. The collection is an association list from the user's identifier to the
  document (the source keys documents by \<^verbatim>\<open>str(user.id)\<close>, which is one-to-one on
  identifiers). The module-level \<^verbatim>\<open>db\<close> stays \<^verbatim>\<open>None\<close> when the connection failed:
  the store of a world is an option.
\<close>

record user_doc =
  email :: string
  telegram_username :: string
  subjects :: "string list"

type_synonym store = "(int \<times> user_doc) list"

text \<open>\<^verbatim>\<open>db.collection('users').document(id).get()\<close>, guarded by \<^verbatim>\<open>if db else None\<close>.\<close>

definition get_doc :: "store option \<Rightarrow> int \<Rightarrow> user_doc option" where
  "get_doc d i = (case d of None \<Rightarrow> None | Some s \<Rightarrow> map_of s i)"

text \<open>
  \<^verbatim>\<open>db.collection('users').where('email', '==', e).limit(1).stream() if db else []\<close>:
  at most one document whose stored email is \<open>e\<close>.
\<close>

definition where_email :: "store option \<Rightarrow> string \<Rightarrow> user_doc list" where
  "where_email d e =
     (case d of None \<Rightarrow> [] | Some s \<Rightarrow> take 1 (filter (\<lambda>doc. email doc = e) (map snd s)))"

text \<open>
  \<^verbatim>\<open>db.collection('users').document(id).set(doc)\<close>: creates the document or replaces
  the one under that identifier. On \<^verbatim>\<open>db = None\<close> the attribute access raises
  (the value \<open>None\<close> here).
\<close>

definition set_doc :: "store option \<Rightarrow> int \<Rightarrow> user_doc \<Rightarrow> store option" where
  "set_doc d i doc = (case d of None \<Rightarrow> None | Some s \<Rightarrow> Some (AList.update i doc s))"

text \<open>
  Modelled from the spec: \<^verbatim>\<open>firestore.ArrayUnion\<close> and \<^verbatim>\<open>firestore.ArrayRemove\<close>
  belong to the store's client library and are not in the source. The spec gives
  \<^verbatim>\<open>addSubject\<close> union semantics (a value already present is not added again, a
  new one is appended) and \<^verbatim>\<open>removeSubject\<close> set-difference semantics (every
  occurrence is removed, an absent value changes nothing).
\<close>

definition ArrayUnion :: "string list \<Rightarrow> string list \<Rightarrow> string list" where
  "ArrayUnion ys xs = fold (\<lambda>y acc. if y \<in> set acc then acc else acc @ [y]) ys xs"

text \<open>
  Modelled from the spec: \<^verbatim>\<open>firestore.ArrayRemove\<close>, with the set-difference
  semantics of \<^verbatim>\<open>removeSubject\<close>.
\<close>

definition ArrayRemove :: "string list \<Rightarrow> string list \<Rightarrow> string list" where
  "ArrayRemove ys xs = filter (\<lambda>x. x \<notin> set ys) xs"

text \<open>
  \<^verbatim>\<open>db.collection('users').document(id).update({'subjects': f})\<close>: applies the
  transform to the subjects of an existing document. It raises (the value \<open>None\<close>
  here) when \<^verbatim>\<open>db\<close> is \<^verbatim>\<open>None\<close> and when there is no document under the
  identifier.
\<close>

definition update_subjects ::
  "store option \<Rightarrow> int \<Rightarrow> (string list \<Rightarrow> string list) \<Rightarrow> store option" where
  "update_subjects d i f =
     (case d of None \<Rightarrow> None
      | Some s \<Rightarrow>
          (case map_of s i of None \<Rightarrow> None
           | Some doc \<Rightarrow> Some (AList.update i (doc\<lparr>subjects := f (subjects doc)\<rparr>) s)))"

text \<open>\<^verbatim>\<open>get_user_subjects\<close>: the empty list without a store or without a document.\<close>

definition get_user_subjects :: "store option \<Rightarrow> int \<Rightarrow> string list" where
  "get_user_subjects d user_id =
     (case d of None \<Rightarrow> []
      | Some s \<Rightarrow> (case map_of s user_id of Some doc \<Rightarrow> subjects doc | None \<Rightarrow> []))"

subsection \<open>The completion service\<close>

text \<open>
  The prompts are fixed texts with the subject spliced in; they are kept as terms
  that carry the subject. \<open>QuizPrompt\<close> is the quiz instruction of
  \<^verbatim>\<open>generate_quiz_from_ai\<close>, \<open>PersonaPrompt\<close> and \<open>PersonaGreeting\<close> are the two
  messages of the tutor's priming history, \<open>Plain\<close> is a text sent as it is.
\<close>

datatype content = QuizPrompt string | PersonaPrompt string | PersonaGreeting string | Plain string

datatype role = RoleUser | RoleModel

datatype chat_handle = ChatSession "(role \<times> content) list"

text \<open>
  The model object. Each call either raises (\<open>None\<close>) or returns. A one-shot
  request is made and its text read inside one \<^verbatim>\<open>try\<close> with nothing in between:
  its \<open>None\<close> stands for either of the two raising. A sent message returns the
  handle as the call leaves it together with the response; reading
  \<^verbatim>\<open>response.text\<close> is a step of its own, which gives the text or raises
  (\<open>None\<close>).
\<close>

type_synonym response = "string option"

record ai =
  generate_content_async :: "content \<Rightarrow> string option"
  start_chat :: "(role \<times> content) list \<Rightarrow> chat_handle option"
  send_message_async :: "chat_handle \<Rightarrow> string \<Rightarrow> (chat_handle \<times> response) option"

subsection \<open>Session, messages and the world\<close>

text \<open>
  \<^verbatim>\<open>context.user_data\<close> with the three keys the program uses; \<open>None\<close> is an absent
  key. \<^verbatim>\<open>user_data.get('is_logged_in')\<close> is truthy exactly for \<open>Some True\<close>.
\<close>

record session =
  is_logged_in :: "bool option"
  tutor_subject :: "string option"
  chat_session :: "chat_handle option"

text \<open>
  The texts the bot sends, one constructor for each literal of the source (its
  pictograms left out); \<open>Verbatim\<close> carries a text of the completion service.
\<close>

datatype wording =
    LoginRequired            \<comment> \<open>This feature requires you to be logged in. Please use /login.\<close>
  | AIUnavailable            \<comment> \<open>Sorry, the AI service is currently unavailable.\<close>
  | QuizError                \<comment> \<open>Sorry, an error occurred while creating your quiz. ...\<close>
  | WelcomeBackMenu          \<comment> \<open>Welcome back! What would you like to do?\<close>
  | WelcomeBackLogin         \<comment> \<open>Welcome back! Please use /login with your email ...\<close>
  | WelcomeRegister          \<comment> \<open>Welcome! Please use /register to create a new account.\<close>
  | LoggedOut                \<comment> \<open>You have been successfully logged out. ...\<close>
  | EnterEmailRegister       \<comment> \<open>Let's create your account. Please enter your email address.\<close>
  | AlreadyRegistered        \<comment> \<open>This email is already registered. Please /login or ...\<close>
  | RegistrationComplete     \<comment> \<open>Registration complete! You can now use /login with your email.\<close>
  | CouldntSave              \<comment> \<open>Couldn't save your data. Please try again.\<close>
  | AlreadyLoggedIn          \<comment> \<open>You are already logged in.\<close>
  | EnterEmailLogin          \<comment> \<open>To log in, please enter your registered email address:\<close>
  | LoginSuccessful          \<comment> \<open>Login successful! Welcome.\<close>
  | LoginIncorrect           \<comment> \<open>Incorrect email or user not registered. ...\<close>
  | CanceledMenu             \<comment> \<open>Action canceled. Returning to the main menu.\<close>
  | Canceled                 \<comment> \<open>Action canceled.\<close>
  | AllAdded                 \<comment> \<open>You've added all available subjects!\<close>
  | ChooseToAdd              \<comment> \<open>Choose a subject to add:\<close>
  | NoSubjectsYet            \<comment> \<open>You have no subjects yet.\<close>
  | YourSubjects             \<comment> \<open>Your subjects:\<close>
  | QuizAddFirst             \<comment> \<open>You need to add a subject first! Use the 'Add Subject' button.\<close>
  | WhichQuiz                \<comment> \<open>Which subject would you like a quiz on?\<close>
  | TutorAddFirst            \<comment> \<open>Add a subject first with the 'Add Subject' button.\<close>
  | WhichTutoring            \<comment> \<open>Which subject for tutoring?\<close>
  | Initializing             \<comment> \<open>Initializing IGCSE Tutor... Please wait.\<close>
  | NowChatting              \<comment> \<open>You are now chatting with the IGCSE Tutor. Type /done ...\<close>
  | CouldntConnect           \<comment> \<open>Couldn't connect to the AI Tutor. Session ended.\<close>
  | Added string             \<comment> \<open>Added '{data}'!\<close>
  | RemovedNoneLeft string   \<comment> \<open>Removed '{data}'. You have no subjects left.\<close>
  | RemovedUpdated string    \<comment> \<open>Removed '{data}'. Your updated list:\<close>
  | AskQuestion string       \<comment> \<open>Great! Ask your question about {data}:\<close>
  | GeneratingQuiz string    \<comment> \<open>Generating a quiz for '{data}'... Please wait.\<close>
  | QuizReady string         \<comment> \<open>Your quiz for '{data}' is ready!\<close>
  | SessionEnded             \<comment> \<open>the confirmation of the termination command\<close>
  | TutorFailed              \<comment> \<open>the generic failure message of the steady-state loop\<close>
  | Verbatim string

text \<open>
  A button of an inline keyboard is its label and its callback data; the label is a
  subject or the removal control.
\<close>

datatype label = Subject string | Remove

datatype markup =
    NoMarkup
  | MAIN_MENU_MARKUP
  | ReplyKeyboardRemove
  | InlineKeyboardMarkup "(label \<times> string) list list"

record message =
  body :: wording
  reply_markup :: markup

text \<open>
  The world a handler runs in: the store, the model object (\<open>None\<close> when its
  configuration failed), the caller's session, the messages sent to the chat in
  their current form, and the number of answered callback queries.
\<close>

record world =
  db :: "store option"
  ai_model :: "ai option"
  user_data :: session
  sent :: "message list"
  answered :: nat

text \<open>
  What a handler hands back to the framework: it raises, or it returns
  \<^verbatim>\<open>None\<close>, \<^verbatim>\<open>ConversationHandler.END\<close> or one of the state constants.
\<close>

datatype signal =
    PyNone | END | GET_EMAIL_REG | CHECK_EMAIL_LOGIN
  | T_SELECT_SUBJECT | T_ASK_QUESTION | T_TUTORING

datatype result = Raised | Returned signal

text \<open>
  Updates. A text message carries its sender and its text; a callback query carries
  its sender, the position in \<open>sent\<close> of the message whose button was pressed, and
  the callback data of that button.
\<close>

record tg_user =
  uid :: int
  username :: "string option"

record msg_update =
  from_user :: tg_user
  msg_text :: string

record cb_update =
  cb_from_user :: tg_user
  cb_message :: nat
  cb_data :: string

type_synonym msg_handler = "msg_update \<Rightarrow> world \<Rightarrow> world \<times> result"
type_synonym cb_handler = "cb_update \<Rightarrow> world \<Rightarrow> world \<times> result"

text \<open>\<^verbatim>\<open>update.message.reply_text\<close> and \<^verbatim>\<open>query.message.reply_text\<close>: one more message.\<close>

definition reply_text :: "wording \<Rightarrow> markup \<Rightarrow> world \<Rightarrow> world" where
  "reply_text t m w = w\<lparr>sent := sent w @ [\<lparr>body = t, reply_markup = m\<rparr>]\<rparr>"

text \<open>
  \<^verbatim>\<open>query.edit_message_text\<close>: the message of the pressed button gets the new text
  and the new markup (none unless given, which removes its keyboard). A position
  outside \<open>sent\<close> is a message the world does not track; nothing tracked changes.
\<close>

definition edit_message_text :: "nat \<Rightarrow> wording \<Rightarrow> markup \<Rightarrow> world \<Rightarrow> world" where
  "edit_message_text i t m w = w\<lparr>sent := (sent w)[i := \<lparr>body = t, reply_markup = m\<rparr>]\<rparr>"

text \<open>\<^verbatim>\<open>AVAILABLE_SUBJECTS\<close>.\<close>

definition AVAILABLE_SUBJECTS :: "string list" where
  "AVAILABLE_SUBJECTS = [''ICT'', ''English'', ''Math'', ''Physics'']"

section \<open>The authentication gate\<close>

text \<open>
  \<^verbatim>\<open>login_required\<close>: the wrapper calls the wrapped handler with the arguments it
  was given when the flag is truthy, and otherwise replies and ends.
\<close>

definition login_required :: "msg_handler \<Rightarrow> msg_handler" where
  "login_required func update w =
     (if is_logged_in (user_data w) = Some True then func update w
      else (reply_text LoginRequired ReplyKeyboardRemove w, Returned END))"

section \<open>Handlers\<close>

subsection \<open>Quiz generation\<close>

text \<open>
  \<^verbatim>\<open>generate_quiz_from_ai\<close>: the text to send. Without a model object it is the
  unavailable message; a raising request is caught and gives the error message.
\<close>

definition generate_quiz_from_ai :: "ai option \<Rightarrow> string \<Rightarrow> wording" where
  "generate_quiz_from_ai m subject_name =
     (case m of None \<Rightarrow> AIUnavailable
      | Some a \<Rightarrow>
          (case generate_content_async a (QuizPrompt subject_name) of
             Some t \<Rightarrow> Verbatim t
           | None \<Rightarrow> QuizError))"

subsection \<open>Start, logout, registration, login, cancel\<close>

definition start_command :: msg_handler where
  "start_command update w =
     (if is_logged_in (user_data w) = Some True
      then (reply_text WelcomeBackMenu MAIN_MENU_MARKUP w, Returned PyNone)
      else (case get_doc (db w) (uid (from_user update)) of
              Some doc \<Rightarrow> (reply_text WelcomeBackLogin ReplyKeyboardRemove w, Returned PyNone)
            | None \<Rightarrow> (reply_text WelcomeRegister ReplyKeyboardRemove w, Returned PyNone)))"

text \<open>\<^verbatim>\<open>context.user_data.clear()\<close> removes every key.\<close>

definition logout_command :: msg_handler where
  "logout_command update w =
     (reply_text LoggedOut ReplyKeyboardRemove
        (w\<lparr>user_data := \<lparr>is_logged_in = None, tutor_subject = None, chat_session = None\<rparr>\<rparr>),
      Returned PyNone)"

definition start_registration :: msg_handler where
  "start_registration update w =
     (reply_text EnterEmailRegister ReplyKeyboardRemove w, Returned GET_EMAIL_REG)"

text \<open>\<^verbatim>\<open>user.username or "N/A"\<close>: a missing or empty username is stored as \<^verbatim>\<open>N/A\<close>.\<close>

definition username_or_na :: "string option \<Rightarrow> string" where
  "username_or_na n = (case n of None \<Rightarrow> ''N/A'' | Some s \<Rightarrow> (if s = [] then ''N/A'' else s))"

text \<open>
  \<^verbatim>\<open>get_email_and_register\<close>: the query for the lower-cased text decides; the write
  is inside \<^verbatim>\<open>try\<close>, and whatever it raises gives the could-not-save reply.
\<close>

definition get_email_and_register :: msg_handler where
  "get_email_and_register update w =
     (let user = from_user update; e = lower (msg_text update);
          docs = where_email (db w) e
      in if length docs > 0
         then (reply_text AlreadyRegistered NoMarkup w, Returned END)
         else (case set_doc (db w) (uid user)
                      \<lparr>email = e, telegram_username = username_or_na (username user),
                       subjects = []\<rparr> of
                 Some s' \<Rightarrow>
                   (reply_text RegistrationComplete NoMarkup (w\<lparr>db := Some s'\<rparr>), Returned END)
               | None \<Rightarrow> (reply_text CouldntSave NoMarkup w, Returned END)))"

definition start_login :: msg_handler where
  "start_login update w =
     (if is_logged_in (user_data w) = Some True
      then (reply_text AlreadyLoggedIn MAIN_MENU_MARKUP w, Returned END)
      else (reply_text EnterEmailLogin ReplyKeyboardRemove w, Returned CHECK_EMAIL_LOGIN))"

text \<open>
  \<^verbatim>\<open>check_email_and_login\<close>: the caller's own document is fetched by identifier and
  its email compared with the lower-cased text.
\<close>

definition check_email_and_login :: msg_handler where
  "check_email_and_login update w =
     (let user_email_input = lower (msg_text update); user_id = uid (from_user update);
          user_doc = get_doc (db w) user_id
      in if (case user_doc of None \<Rightarrow> False | Some doc \<Rightarrow> user_email_input = email doc)
         then (reply_text LoginSuccessful MAIN_MENU_MARKUP
                 (w\<lparr>user_data := (user_data w)\<lparr>is_logged_in := Some True\<rparr>\<rparr>),
               Returned END)
         else (reply_text LoginIncorrect NoMarkup w, Returned END))"

definition cancel_conversation :: msg_handler where
  "cancel_conversation update w =
     (if is_logged_in (user_data w) = Some True
      then (reply_text CanceledMenu MAIN_MENU_MARKUP w, Returned END)
      else (reply_text Canceled NoMarkup w, Returned END))"

subsection \<open>Protected features\<close>

text \<open>
  Each of the four commands is the gate applied to the body the source decorates;
  the bodies carry the suffix \<open>_body\<close>.
\<close>

definition add_subject_body :: msg_handler where
  "add_subject_body update w =
     (let current_subjects = get_user_subjects (db w) (uid (from_user update));
          keyboard = map (\<lambda>s. [(Subject s, ''add_'' @ s)])
                       (filter (\<lambda>s. s \<notin> set current_subjects) AVAILABLE_SUBJECTS)
      in if keyboard = [] then (reply_text AllAdded MAIN_MENU_MARKUP w, Returned PyNone)
         else (reply_text ChooseToAdd (InlineKeyboardMarkup keyboard) w, Returned PyNone))"

definition add_subject_command :: msg_handler where
  "add_subject_command = login_required add_subject_body"

text \<open>The rows of the subject list: the subject (callback data \<^verbatim>\<open>n_\<close>) and its removal control.\<close>

definition remove_keyboard :: "string list \<Rightarrow> (label \<times> string) list list" where
  "remove_keyboard subs = map (\<lambda>s. [(Subject s, ''n_''), (Remove, ''remove_'' @ s)]) subs"

definition my_subjects_body :: msg_handler where
  "my_subjects_body update w =
     (let subs = get_user_subjects (db w) (uid (from_user update))
      in if subs = [] then (reply_text NoSubjectsYet MAIN_MENU_MARKUP w, Returned PyNone)
         else (reply_text YourSubjects (InlineKeyboardMarkup (remove_keyboard subs)) w,
               Returned PyNone))"

definition my_subjects_command :: msg_handler where
  "my_subjects_command = login_required my_subjects_body"

definition quiz_me_body :: msg_handler where
  "quiz_me_body update w =
     (let subs = get_user_subjects (db w) (uid (from_user update))
      in if subs = [] then (reply_text QuizAddFirst MAIN_MENU_MARKUP w, Returned PyNone)
         else (reply_text WhichQuiz
                 (InlineKeyboardMarkup (map (\<lambda>s. [(Subject s, ''quiz_'' @ s)]) subs)) w,
               Returned PyNone))"

definition quiz_me_command :: msg_handler where
  "quiz_me_command = login_required quiz_me_body"

definition start_tutor_body :: msg_handler where
  "start_tutor_body update w =
     (let subs = get_user_subjects (db w) (uid (from_user update))
      in if subs = [] then (reply_text TutorAddFirst MAIN_MENU_MARKUP w, Returned END)
         else (reply_text WhichTutoring
                 (InlineKeyboardMarkup (map (\<lambda>s. [(Subject s, ''tutor_'' @ s)]) subs)) w,
               Returned T_SELECT_SUBJECT))"

definition start_tutor_session :: msg_handler where
  "start_tutor_session = login_required start_tutor_body"

subsection \<open>The first tutoring question\<close>

text \<open>
  \<^verbatim>\<open>start_ai_conversation\<close>. Inside \<^verbatim>\<open>try\<close>: the chat is started with the priming
  history, the question is sent, the handle is stored, and then the text of the
  response is read for the reply. Without a model object the first call raises as
  well. Every failure lands in the \<^verbatim>\<open>except\<close> branch, with the session as the
  steps before it left it.
  \<open>subject_of\<close> is \<^verbatim>\<open>user_data.get('tutor_subject', 'this subject')\<close> and
  \<open>priming_history\<close> is the local \<^verbatim>\<open>chat_history\<close>.
\<close>

definition subject_of :: "session \<Rightarrow> string" where
  "subject_of ses = (case tutor_subject ses of Some s \<Rightarrow> s | None \<Rightarrow> ''this subject'')"

definition priming_history :: "string \<Rightarrow> (role \<times> content) list" where
  "priming_history subject =
     [(RoleUser, PersonaPrompt subject), (RoleModel, PersonaGreeting subject)]"

definition start_ai_conversation :: msg_handler where
  "start_ai_conversation update w =
     (let initial_question = msg_text update;
          subject = subject_of (user_data w);
          w1 = reply_text Initializing NoMarkup w;
          chat_history = priming_history subject
      in case (case ai_model w of None \<Rightarrow> None
               | Some a \<Rightarrow>
                   (case start_chat a chat_history of None \<Rightarrow> None
                    | Some h \<Rightarrow> send_message_async a h initial_question)) of
           Some (h', response) \<Rightarrow>
             (let w2 = w1\<lparr>user_data := (user_data w1)\<lparr>chat_session := Some h'\<rparr>\<rparr>
              in case response of
                   Some response_text \<Rightarrow>
                     (reply_text NowChatting NoMarkup
                        (reply_text (Verbatim response_text) ReplyKeyboardRemove w2),
                      Returned T_TUTORING)
                 | None \<Rightarrow> (reply_text CouldntConnect MAIN_MENU_MARKUP w2, Returned END))
         | None \<Rightarrow> (reply_text CouldntConnect MAIN_MENU_MARKUP w1, Returned END))"

subsection \<open>The universal inline button handler\<close>

text \<open>The last two lines of \<^verbatim>\<open>button_handler\<close>.\<close>

definition continuation :: "world \<Rightarrow> world \<times> result" where
  "continuation w =
     (if tutor_subject (user_data w) = None then (w, Returned END)
      else (w, Returned T_ASK_QUESTION))"

text \<open>
  \<^verbatim>\<open>button_handler\<close>: the query is answered, the data split, and the branch of the
  action runs. The store updates of the add and remove branches are not inside a
  \<^verbatim>\<open>try\<close>: when they raise, so does the handler. An action that is none of the
  four falls through to the last two lines.
\<close>

definition button_handler :: cb_handler where
  "button_handler update w =
     (let w0 = w\<lparr>answered := Suc (answered w)\<rparr>; i = cb_message update
      in case split1 (cb_data update) of
           None \<Rightarrow> (w0, Raised)
         | Some (action, data) \<Rightarrow>
             (let user_id = uid (cb_from_user update)
              in if action = ''add'' then
                   (case update_subjects (db w0) user_id (ArrayUnion [data]) of
                      None \<Rightarrow> (w0, Raised)
                    | Some s' \<Rightarrow>
                        continuation (edit_message_text i (Added data) NoMarkup (w0\<lparr>db := Some s'\<rparr>)))
                 else if action = ''remove'' then
                   (case update_subjects (db w0) user_id (ArrayRemove [data]) of
                      None \<Rightarrow> (w0, Raised)
                    | Some s' \<Rightarrow>
                        (let w1 = w0\<lparr>db := Some s'\<rparr>;
                             new_subjects = get_user_subjects (db w1) user_id
                         in if new_subjects = []
                            then continuation (edit_message_text i (RemovedNoneLeft data) NoMarkup w1)
                            else continuation
                                   (edit_message_text i (RemovedUpdated data)
                                      (InlineKeyboardMarkup (remove_keyboard new_subjects)) w1)))
                 else if action = ''tutor'' then
                   (edit_message_text i (AskQuestion data) NoMarkup
                      (w0\<lparr>user_data := (user_data w0)\<lparr>tutor_subject := Some data\<rparr>\<rparr>),
                    Returned T_ASK_QUESTION)
                 else if action = ''quiz'' then
                   (let w1 = edit_message_text i (GeneratingQuiz data) NoMarkup w0;
                        quiz_text = generate_quiz_from_ai (ai_model w1) data;
                        w2 = reply_text quiz_text MAIN_MENU_MARKUP w1
                    in continuation (edit_message_text i (QuizReady data) NoMarkup w2))
                 else continuation w0))"

subsection \<open>Handlers named by the source and absent from it\<close>

text \<open>
  Modelled from the spec: \<^verbatim>\<open>end_tutor_session\<close> is registered by \<^verbatim>\<open>main\<close> as the
  fallback of the tutor flow and is not defined in the source. The spec: the explicit
  termination command ends the flow, discards the chat session handle and the
  selected subject, returns to idle, replies with a confirmation and restores the
  main menu.
\<close>

definition end_tutor_session :: msg_handler where
  "end_tutor_session update w =
     (reply_text SessionEnded MAIN_MENU_MARKUP
        (w\<lparr>user_data := (user_data w)\<lparr>tutor_subject := None, chat_session := None\<rparr>\<rparr>),
      Returned END)"

text \<open>
  Modelled from the spec: \<^verbatim>\<open>forward_to_ai\<close> is registered by \<^verbatim>\<open>main\<close> for the
  tutoring state and is not defined in the source. The spec: the text is forwarded
  to the stored chat session handle and the reply relayed verbatim, the flow stays in
  tutoring; a failure of the completion service gives a generic message and ends the
  flow.
\<close>

definition forward_to_ai :: msg_handler where
  "forward_to_ai update w =
     (case (case ai_model w of None \<Rightarrow> None
            | Some a \<Rightarrow>
                (case chat_session (user_data w) of None \<Rightarrow> None
                 | Some h \<Rightarrow> send_message_async a h (msg_text update))) of
        Some (h', Some response_text) \<Rightarrow>
          (reply_text (Verbatim response_text) NoMarkup
             (w\<lparr>user_data := (user_data w)\<lparr>chat_session := Some h'\<rparr>\<rparr>),
           Returned T_TUTORING)
      | _ \<Rightarrow> (reply_text TutorFailed MAIN_MENU_MARKUP w, Returned END))"

section \<open>Routing\<close>

text \<open>
  \<^verbatim>\<open>main\<close> registers its handlers in one group. The framework offers an update to
  the handlers in the order of registration and runs the first that accepts it. A
  conversation handler accepts an update through its entry points while it is idle,
  and through the handlers of its current state and then its fallbacks otherwise;
  the value returned by the handler it ran becomes its state (\<^verbatim>\<open>None\<close> keeps the
  state, \<^verbatim>\<open>END\<close> makes it idle, a raising handler keeps the state). The value
  returned by a handler outside a conversation is dropped.
\<close>

datatype update = Message msg_update | CallbackQuery cb_update

text \<open>
  A command handler takes a message whose first word is the slash and its command,
  a message handler a message whose text passes its filter, and a callback query
  handler a query whose data starts with one of the alternatives of its pattern.
\<close>

datatype binding =
    CommandHandler string msg_handler
  | MessageHandler "string \<Rightarrow> bool" msg_handler
  | CallbackQueryHandler "string list" cb_handler

definition command_of :: "string \<Rightarrow> string option" where
  "command_of t =
     (case t of [] \<Rightarrow> None
      | c # r \<Rightarrow> (if c = CHR ''/'' then Some (takeWhile (\<lambda>x. x \<noteq> CHR '' '') r) else None))"

text \<open>\<^verbatim>\<open>filters.TEXT & ~filters.COMMAND\<close>.\<close>

definition text_not_command :: "string \<Rightarrow> bool" where
  "text_not_command t = (command_of t = None)"

text \<open>
  The labels of \<^verbatim>\<open>MAIN_MENU_KEYBOARD\<close>, which the \<^verbatim>\<open>filters.Regex\<close> handlers
  match as whole texts (each without the pictogram it starts with in the source).
\<close>

definition TUTOR_LABEL :: string where "TUTOR_LABEL = ''Tutor''"
definition QUIZ_LABEL :: string where "QUIZ_LABEL = ''Quiz Me''"
definition MY_SUBJECTS_LABEL :: string where "MY_SUBJECTS_LABEL = ''My Subjects''"
definition ADD_SUBJECT_LABEL :: string where "ADD_SUBJECT_LABEL = ''Add Subject''"

fun check_update :: "binding \<Rightarrow> update \<Rightarrow> (world \<Rightarrow> world \<times> result) option" where
  "check_update (CommandHandler c h) (Message m) =
     (if command_of (msg_text m) = Some c then Some (h m) else None)"
| "check_update (MessageHandler f h) (Message m) =
     (if f (msg_text m) then Some (h m) else None)"
| "check_update (CallbackQueryHandler ps h) (CallbackQuery q) =
     (if list_ex (\<lambda>p. prefix p (cb_data q)) ps then Some (h q) else None)"
| "check_update _ _ = None"

fun first_match :: "binding list \<Rightarrow> update \<Rightarrow> (world \<Rightarrow> world \<times> result) option" where
  "first_match [] u = None"
| "first_match (b # bs) u =
     (case check_update b u of Some k \<Rightarrow> Some k | None \<Rightarrow> first_match bs u)"

record conversation =
  entry_points :: "binding list"
  states :: "(signal \<times> binding list) list"
  fallbacks :: "binding list"

definition conv_check ::
  "conversation \<Rightarrow> signal option \<Rightarrow> update \<Rightarrow> (world \<Rightarrow> world \<times> result) option" where
  "conv_check c st u =
     (case st of None \<Rightarrow> first_match (entry_points c) u
      | Some s \<Rightarrow>
          (case first_match (case map_of (states c) s of Some bs \<Rightarrow> bs | None \<Rightarrow> []) u of
             Some k \<Rightarrow> Some k
           | None \<Rightarrow> first_match (fallbacks c) u))"

definition conv_next :: "signal option \<Rightarrow> result \<Rightarrow> signal option" where
  "conv_next st r =
     (case r of Raised \<Rightarrow> st
      | Returned v \<Rightarrow> (if v = PyNone then st else if v = END then None else Some v))"

definition reg_handler :: conversation where
  "reg_handler =
     \<lparr>entry_points = [CommandHandler ''register'' start_registration],
      states = [(GET_EMAIL_REG, [MessageHandler text_not_command get_email_and_register])],
      fallbacks = [CommandHandler ''cancel'' cancel_conversation]\<rparr>"

definition login_handler :: conversation where
  "login_handler =
     \<lparr>entry_points = [CommandHandler ''login'' start_login],
      states = [(CHECK_EMAIL_LOGIN, [MessageHandler text_not_command check_email_and_login])],
      fallbacks = [CommandHandler ''cancel'' cancel_conversation]\<rparr>"

definition tutor_handler :: conversation where
  "tutor_handler =
     \<lparr>entry_points = [CommandHandler ''tutor'' start_tutor_session,
                      MessageHandler (\<lambda>t. t = TUTOR_LABEL) start_tutor_session],
      states = [(T_SELECT_SUBJECT, [CallbackQueryHandler [''tutor_''] button_handler]),
                (T_ASK_QUESTION, [MessageHandler text_not_command start_ai_conversation]),
                (T_TUTORING, [MessageHandler text_not_command forward_to_ai])],
      fallbacks = [CommandHandler ''done'' end_tutor_session]\<rparr>"

text \<open>The handlers registered after the three conversations, in order.\<close>

definition plain_handlers :: "binding list" where
  "plain_handlers =
     [CommandHandler ''mysubjects'' my_subjects_command,
      CommandHandler ''addsubject'' add_subject_command,
      CommandHandler ''quizme'' quiz_me_command,
      MessageHandler (\<lambda>t. t = MY_SUBJECTS_LABEL) my_subjects_command,
      MessageHandler (\<lambda>t. t = ADD_SUBJECT_LABEL) add_subject_command,
      MessageHandler (\<lambda>t. t = QUIZ_LABEL) quiz_me_command,
      CallbackQueryHandler [''add_'', ''remove_'', ''quiz_''] button_handler]"

text \<open>The application for one user: the world and the state of each conversation.\<close>

record app =
  the_world :: world
  reg_state :: "signal option"
  login_state :: "signal option"
  tutor_state :: "signal option"

definition dispatch :: "update \<Rightarrow> app \<Rightarrow> app" where
  "dispatch u a =
     (case first_match [CommandHandler ''start'' start_command,
                        CommandHandler ''logout'' logout_command] u of
        Some k \<Rightarrow> a\<lparr>the_world := fst (k (the_world a))\<rparr>
      | None \<Rightarrow>
     (case conv_check reg_handler (reg_state a) u of
        Some k \<Rightarrow>
          (let (w', r) = k (the_world a)
           in a\<lparr>the_world := w', reg_state := conv_next (reg_state a) r\<rparr>)
      | None \<Rightarrow>
     (case conv_check login_handler (login_state a) u of
        Some k \<Rightarrow>
          (let (w', r) = k (the_world a)
           in a\<lparr>the_world := w', login_state := conv_next (login_state a) r\<rparr>)
      | None \<Rightarrow>
     (case conv_check tutor_handler (tutor_state a) u of
        Some k \<Rightarrow>
          (let (w', r) = k (the_world a)
           in a\<lparr>the_world := w', tutor_state := conv_next (tutor_state a) r\<rparr>)
      | None \<Rightarrow>
     (case first_match plain_handlers u of
        Some k \<Rightarrow> a\<lparr>the_world := fst (k (the_world a))\<rparr>
      | None \<Rightarrow> a)))))"

text \<open>
  What one user can do: send a text, or press a button that a message of the chat
  shows at that moment.
\<close>

datatype event = Text string | Press nat string

definition buttons_of :: "markup \<Rightarrow> string list" where
  "buttons_of m = (case m of InlineKeyboardMarkup rows \<Rightarrow> map snd (concat rows) | _ \<Rightarrow> [])"

definition clickable :: "world \<Rightarrow> nat \<Rightarrow> string \<Rightarrow> bool" where
  "clickable w i d = (i < length (sent w) \<and> d \<in> set (buttons_of (reply_markup (sent w ! i))))"

fun update_of :: "tg_user \<Rightarrow> event \<Rightarrow> update" where
  "update_of user (Text t) = Message \<lparr>from_user = user, msg_text = t\<rparr>"
| "update_of user (Press i d) = CallbackQuery \<lparr>cb_from_user = user, cb_message = i, cb_data = d\<rparr>"

fun possible :: "app \<Rightarrow> event \<Rightarrow> bool" where
  "possible a (Text t) = True"
| "possible a (Press i d) = clickable (the_world a) i d"

text \<open>A run of events of one user; \<open>None\<close> when an event is not possible where it occurs.\<close>

fun run :: "tg_user \<Rightarrow> event list \<Rightarrow> app \<Rightarrow> app option" where
  "run user [] a = Some a"
| "run user (e # es) a = (if possible a e then run user es (dispatch (update_of user e) a) else None)"

section \<open>Definitions used by the properties\<close>

text \<open>The commands that \<^verbatim>\<open>main.py\<close> decorates with the gate, each with its body.\<close>

definition gated_operations :: "(msg_handler \<times> msg_handler) list" where
  "gated_operations =
     [(add_subject_command, add_subject_body),
      (my_subjects_command, my_subjects_body),
      (quiz_me_command, quiz_me_body),
      (start_tutor_session, start_tutor_body)]"

definition rejection :: "world \<Rightarrow> world \<times> result" where
  "rejection w = (reply_text LoginRequired ReplyKeyboardRemove w, Returned END)"

text \<open>The world with the session's login flag set to a given value.\<close>

definition with_flag :: "bool option \<Rightarrow> world \<Rightarrow> world" where
  "with_flag b w = w\<lparr>user_data := (user_data w)\<lparr>is_logged_in := b\<rparr>\<rparr>"

text \<open>
  A store is well formed when no identifier has two documents. Its emails are
  lower-cased when every stored email is its own lower-casing, as every email that
  registration writes is.
\<close>

definition keys_distinct :: "store option \<Rightarrow> bool" where
  "keys_distinct d = (case d of None \<Rightarrow> True | Some s \<Rightarrow> distinct (map fst s))"

definition emails_lowered :: "store option \<Rightarrow> bool" where
  "emails_lowered d =
     (case d of None \<Rightarrow> True | Some s \<Rightarrow> list_all (\<lambda>doc. lower (email doc) = email doc) (map snd s))"

subsection \<open>Concrete inputs\<close>

text \<open>A user, her profile, a connected store holding it, and two sessions.\<close>

definition ann :: tg_user where
  "ann = \<lparr>uid = 7, username = Some ''ann''\<rparr>"

definition ann_doc :: user_doc where
  "ann_doc = \<lparr>email = ''a@b.com'', telegram_username = ''ann'', subjects = [''Math'']\<rparr>"

definition no_session :: session where
  "no_session = \<lparr>is_logged_in = None, tutor_subject = None, chat_session = None\<rparr>"

definition world_of :: "store option \<Rightarrow> session \<Rightarrow> world" where
  "world_of d ses = \<lparr>db = d, ai_model = None, user_data = ses, sent = [], answered = 0\<rparr>"

definition anon_world :: world where
  "anon_world = world_of (Some [(7, ann_doc)]) no_session"

definition ann_world :: world where
  "ann_world = world_of (Some [(7, ann_doc)]) (no_session\<lparr>is_logged_in := Some True\<rparr>)"

definition idle :: "world \<Rightarrow> app" where
  "idle w = \<lparr>the_world = w, reg_state = None, login_state = None, tutor_state = None\<rparr>"

text \<open>
  A model whose chat starts and whose requests all raise, a session in the middle
  of tutoring, and the application there.
\<close>

definition silent_ai :: ai where
  "silent_ai =
     \<lparr>generate_content_async = (\<lambda>c. None),
      start_chat = (\<lambda>h. Some (ChatSession h)),
      send_message_async = (\<lambda>h t. None)\<rparr>"

text \<open>
  A model that returns a response whose text cannot be read, and one that answers
  every request.
\<close>

definition mute_ai :: ai where
  "mute_ai =
     \<lparr>generate_content_async = (\<lambda>c. None),
      start_chat = (\<lambda>h. Some (ChatSession h)),
      send_message_async = (\<lambda>h t. Some (h, None))\<rparr>"

definition answering_ai :: ai where
  "answering_ai =
     \<lparr>generate_content_async = (\<lambda>c. Some ''Q1''),
      start_chat = (\<lambda>h. Some (ChatSession h)),
      send_message_async = (\<lambda>h t. Some (h, Some ''A1''))\<rparr>"

text \<open>
  A world, not logged in, whose chat shows one message with the quiz option, the
  removal control and the add option, and whose model answers.
\<close>

definition menu_world :: world where
  "menu_world =
     \<lparr>db = Some [(7, ann_doc)], ai_model = Some answering_ai, user_data = no_session,
      sent = [\<lparr>body = WhichQuiz,
               reply_markup = InlineKeyboardMarkup
                 [[(Subject ''Math'', ''quiz_Math'')], [(Remove, ''remove_Math'')],
                  [(Subject ''Physics'', ''add_Physics'')]]\<rparr>],
      answered = 0\<rparr>"

definition tutoring_session :: session where
  "tutoring_session =
     \<lparr>is_logged_in = Some True, tutor_subject = Some ''Math'',
      chat_session = Some (ChatSession (priming_history ''Math''))\<rparr>"

definition tutoring_app :: app where
  "tutoring_app =
     \<lparr>the_world = world_of (Some [(7, ann_doc)]) tutoring_session,
      reg_state = None, login_state = None, tutor_state = Some T_TUTORING\<rparr>"

text \<open>A profile without subjects, in a session that is not logged in and in one that is.\<close>

definition bare_doc :: user_doc where
  "bare_doc = \<lparr>email = ''a@b.com'', telegram_username = ''ann'', subjects = []\<rparr>"

definition bare_anon_world :: world where
  "bare_anon_world = world_of (Some [(7, bare_doc)]) no_session"

definition bare_world :: world where
  "bare_world = world_of (Some [(7, bare_doc)]) (no_session\<lparr>is_logged_in := Some True\<rparr>)"

text \<open>
  What the application holds for a user: the subject selected for tutoring and the
  subjects of the profile.
\<close>

definition selected_subject :: "app \<Rightarrow> string option" where
  "selected_subject a = tutor_subject (user_data (the_world a))"

definition profile_subjects :: "tg_user \<Rightarrow> app \<Rightarrow> string list" where
  "profile_subjects user a = get_user_subjects (db (the_world a)) (uid user)"

text \<open>
  A run: the tutor entry, the subject list, the removal control of the subject in
  the list, and then the subject's button of the tutor entry's keyboard.
\<close>

definition stale_selection :: "event list" where
  "stale_selection =
     [Text ''/tutor'', Text ''/mysubjects'', Press 1 ''remove_Math'', Press 0 ''tutor_Math'']"

text \<open>A user without a username, and a world without a store.\<close>

definition bob :: tg_user where
  "bob = \<lparr>uid = 9, username = None\<rparr>"

definition offline_world :: world where
  "offline_world = world_of None no_session"

lemmas example_defs =
  ann_def ann_doc_def no_session_def world_of_def anon_world_def ann_world_def idle_def
  silent_ai_def tutoring_session_def tutoring_app_def bare_doc_def bare_anon_world_def
  bare_world_def bob_def offline_world_def mute_ai_def answering_ai_def menu_world_def

section \<open>Auxiliary facts\<close>

lemma lower_example: "lower ''A@B.com'' = ''a@b.com''"
  by code_simp

lemma lower_example2: "lower ''x@b.com'' = ''x@b.com''"
  by code_simp

text \<open>The universal button handler, branch by branch.\<close>

lemma button_handler_unsplit:
  "split1 (cb_data q) = None \<Longrightarrow>
   button_handler q w = (w\<lparr>answered := Suc (answered w)\<rparr>, Raised)"
  by (simp add: button_handler_def)

lemma button_handler_add:
  "split1 (cb_data q) = Some (''add'', d) \<Longrightarrow>
   button_handler q w =
     (case update_subjects (db w) (uid (cb_from_user q)) (ArrayUnion [d]) of
        None \<Rightarrow> (w\<lparr>answered := Suc (answered w)\<rparr>, Raised)
      | Some s' \<Rightarrow>
          continuation (edit_message_text (cb_message q) (Added d) NoMarkup
            (w\<lparr>answered := Suc (answered w), db := Some s'\<rparr>)))"
  by (simp add: button_handler_def Let_def)

lemma button_handler_remove:
  "split1 (cb_data q) = Some (''remove'', d) \<Longrightarrow>
   button_handler q w =
     (case update_subjects (db w) (uid (cb_from_user q)) (ArrayRemove [d]) of
        None \<Rightarrow> (w\<lparr>answered := Suc (answered w)\<rparr>, Raised)
      | Some s' \<Rightarrow>
          continuation (edit_message_text (cb_message q)
            (if get_user_subjects (Some s') (uid (cb_from_user q)) = []
             then RemovedNoneLeft d else RemovedUpdated d)
            (if get_user_subjects (Some s') (uid (cb_from_user q)) = [] then NoMarkup
             else InlineKeyboardMarkup
                    (remove_keyboard (get_user_subjects (Some s') (uid (cb_from_user q)))))
            (w\<lparr>answered := Suc (answered w), db := Some s'\<rparr>)))"
  by (simp add: button_handler_def Let_def split: option.splits)

lemma button_handler_tutor:
  "split1 (cb_data q) = Some (''tutor'', d) \<Longrightarrow>
   button_handler q w =
     (edit_message_text (cb_message q) (AskQuestion d) NoMarkup
        (w\<lparr>answered := Suc (answered w),
           user_data := (user_data w)\<lparr>tutor_subject := Some d\<rparr>\<rparr>),
      Returned T_ASK_QUESTION)"
  by (simp add: button_handler_def Let_def)

lemma button_handler_quiz:
  "split1 (cb_data q) = Some (''quiz'', d) \<Longrightarrow>
   button_handler q w =
     continuation
       (edit_message_text (cb_message q) (QuizReady d) NoMarkup
          (reply_text (generate_quiz_from_ai (ai_model w) d) MAIN_MENU_MARKUP
             (edit_message_text (cb_message q) (GeneratingQuiz d) NoMarkup
                (w\<lparr>answered := Suc (answered w)\<rparr>))))"
  by (simp add: button_handler_def Let_def edit_message_text_def reply_text_def)

lemma button_handler_other:
  "split1 (cb_data q) = Some (action, d) \<Longrightarrow>
   action \<noteq> ''add'' \<Longrightarrow> action \<noteq> ''remove'' \<Longrightarrow> action \<noteq> ''tutor'' \<Longrightarrow>
   action \<noteq> ''quiz'' \<Longrightarrow>
   button_handler q w = continuation (w\<lparr>answered := Suc (answered w)\<rparr>)"
  by (simp add: button_handler_def Let_def)

text \<open>The login flag is neither read nor written by the button handler.\<close>

lemma button_handler_flag:
  "button_handler q (with_flag b w)
     = (with_flag b (fst (button_handler q w)), snd (button_handler q w))"
proof (cases "split1 (cb_data q)")
  case None
  then show ?thesis
    by (simp add: button_handler_unsplit with_flag_def)
next
  case (Some p)
  obtain action d where p: "p = (action, d)"
    by (cases p)
  have db: "db (with_flag b w) = db w" and ai: "ai_model (with_flag b w) = ai_model w"
    by (simp_all add: with_flag_def)
  consider (add) "action = ''add''" | (remove) "action = ''remove''"
    | (tutor) "action = ''tutor''" | (quiz) "action = ''quiz''"
    | (other) "action \<noteq> ''add''" "action \<noteq> ''remove''" "action \<noteq> ''tutor''"
        "action \<noteq> ''quiz''"
    by blast
  then show ?thesis
  proof cases
    case add
    with Some p have s: "split1 (cb_data q) = Some (''add'', d)" by simp
    show ?thesis
      unfolding button_handler_add [OF s] db
      by (auto simp add: with_flag_def continuation_def edit_message_text_def split: option.splits)
  next
    case remove
    with Some p have s: "split1 (cb_data q) = Some (''remove'', d)" by simp
    show ?thesis
      unfolding button_handler_remove [OF s] db
      by (auto simp add: with_flag_def continuation_def edit_message_text_def split: option.splits)
  next
    case tutor
    with Some p have s: "split1 (cb_data q) = Some (''tutor'', d)" by simp
    show ?thesis
      unfolding button_handler_tutor [OF s]
      by (simp add: with_flag_def edit_message_text_def)
  next
    case quiz
    with Some p have s: "split1 (cb_data q) = Some (''quiz'', d)" by simp
    show ?thesis
      unfolding button_handler_quiz [OF s] ai
      by (auto simp add: with_flag_def continuation_def edit_message_text_def reply_text_def)
  next
    case other
    with Some p have s: "split1 (cb_data q) = Some (action, d)" by simp
    show ?thesis
      unfolding button_handler_other [OF s other]
      by (auto simp add: with_flag_def continuation_def)
  qed
qed

text \<open>The first question when the completion service answers.\<close>

lemma start_ai_conversation_success:
  "ai_model w = Some a \<Longrightarrow>
   start_chat a (priming_history (subject_of (user_data w))) = Some h \<Longrightarrow>
   send_message_async a h (msg_text update) = Some (h', Some t) \<Longrightarrow>
   snd (start_ai_conversation update w) = Returned T_TUTORING
   \<and> chat_session (user_data (fst (start_ai_conversation update w))) = Some h'"
  by (auto simp add: start_ai_conversation_def subject_of_def reply_text_def Let_def
      split: option.splits)

text \<open>The first question when the response comes back and its text cannot be read.\<close>

lemma start_ai_conversation_unreadable:
  "ai_model w = Some a \<Longrightarrow>
   start_chat a (priming_history (subject_of (user_data w))) = Some h \<Longrightarrow>
   send_message_async a h (msg_text update) = Some (h', None) \<Longrightarrow>
   snd (start_ai_conversation update w) = Returned END
   \<and> chat_session (user_data (fst (start_ai_conversation update w))) = Some h'
   \<and> sent (fst (start_ai_conversation update w))
        = sent w @ [\<lparr>body = Initializing, reply_markup = NoMarkup\<rparr>,
                    \<lparr>body = CouldntConnect, reply_markup = MAIN_MENU_MARKUP\<rparr>]"
  by (auto simp add: start_ai_conversation_def subject_of_def reply_text_def Let_def
      split: option.splits)

lemma update_subjects_None:
  "update_subjects d i f = None \<longleftrightarrow> get_doc d i = None"
  by (simp add: update_subjects_def get_doc_def split: option.splits)

lemma continuation_result:
  "snd (continuation w) = Returned (if tutor_subject (user_data w) = None then END else T_ASK_QUESTION)"
  "fst (continuation w) = w"
  by (simp_all add: continuation_def)

text \<open>Routing of the universal selections and of the termination command.\<close>

lemma prefix_tutor_not_universal:
  "list_ex (\<lambda>p. prefix p d) [''add_'', ''remove_'', ''quiz_''] \<Longrightarrow> \<not> prefix ''tutor_'' d"
  by (auto simp add: prefix_def)

lemma dispatch_universal:
  assumes "list_ex (\<lambda>p. prefix p (cb_data q)) [''add_'', ''remove_'', ''quiz_'']"
  shows "dispatch (CallbackQuery q) a = a\<lparr>the_world := fst (button_handler q (the_world a))\<rparr>"
proof -
  have t: "\<not> prefix ''tutor_'' (cb_data q)"
    using assms by (rule prefix_tutor_not_universal)
  have r: "conv_check reg_handler (reg_state a) (CallbackQuery q) = None"
    by (simp add: conv_check_def reg_handler_def split: option.splits)
  have l: "conv_check login_handler (login_state a) (CallbackQuery q) = None"
    by (simp add: conv_check_def login_handler_def split: option.splits)
  have c: "conv_check tutor_handler (tutor_state a) (CallbackQuery q) = None"
    using t by (simp add: conv_check_def tutor_handler_def split: option.splits)
  have p: "first_match plain_handlers (CallbackQuery q) = Some (button_handler q)"
    using assms by (simp add: plain_handlers_def)
  show ?thesis
    by (simp add: dispatch_def r l c p)
qed

lemma dispatch_done:
  assumes s: "tutor_state a = Some s" and d: "command_of (msg_text m) = Some ''done''"
  shows "dispatch (Message m) a
    = a\<lparr>the_world := fst (end_tutor_session m (the_world a)), tutor_state := None\<rparr>"
proof -
  have n: "\<not> text_not_command (msg_text m)"
    using d by (simp add: text_not_command_def)
  have r: "conv_check reg_handler (reg_state a) (Message m) = None"
    using d n by (simp add: conv_check_def reg_handler_def split: option.splits)
  have l: "conv_check login_handler (login_state a) (Message m) = None"
    using d n by (simp add: conv_check_def login_handler_def split: option.splits)
  have c: "conv_check tutor_handler (tutor_state a) (Message m) = Some (end_tutor_session m)"
    using d n s by (simp add: conv_check_def tutor_handler_def split: option.splits)
  show ?thesis
    using d by (simp add: dispatch_def r l c end_tutor_session_def conv_next_def)
qed

lemma with_flag_simps:
  "db (with_flag b w) = db w" "sent (with_flag b w) = sent w"
  "ai_model (with_flag b w) = ai_model w" "answered (with_flag b w) = answered w"
  "is_logged_in (user_data (with_flag b w)) = b"
  "tutor_subject (user_data (with_flag b w)) = tutor_subject (user_data w)"
  "chat_session (user_data (with_flag b w)) = chat_session (user_data w)"
  by (simp_all add: with_flag_def)

text \<open>Array union, the split of tagged callback data, and one add selection.\<close>

lemma ArrayUnion_single: "ArrayUnion [x] xs = (if x \<in> set xs then xs else xs @ [x])"
  by (simp add: ArrayUnion_def)

lemma set_ArrayUnion: "set (ArrayUnion ys xs) = set xs \<union> set ys"
  unfolding ArrayUnion_def
  by (induction ys arbitrary: xs) auto

lemma ArrayUnion_idem: "ArrayUnion [x] (ArrayUnion [x] xs) = ArrayUnion [x] xs"
  by (simp add: ArrayUnion_single)

lemma split1_tagged:
  "CHR ''_'' \<notin> set a \<Longrightarrow> split1 (a @ CHR ''_'' # d) = Some (a, d)"
proof -
  assume a: "CHR ''_'' \<notin> set a"
  then have n: "\<And>c. c \<in> set a \<Longrightarrow> c \<noteq> CHR ''_''"
    by blast
  have t: "takeWhile (\<lambda>c. c \<noteq> CHR ''_'') (a @ CHR ''_'' # d) = a"
    using n by (simp add: takeWhile_append2)
  have r: "dropWhile (\<lambda>c. c \<noteq> CHR ''_'') (a @ CHR ''_'' # d) = CHR ''_'' # d"
    using n by (simp add: dropWhile_append2)
  show ?thesis
    by (simp add: split1_def t r)
qed

lemma split1_add: "split1 (''add_'' @ x) = Some (''add'', x)"
  using split1_tagged [of "''add''" x] by simp

lemma split1_tutor: "split1 (''tutor_'' @ x) = Some (''tutor'', x)"
  using split1_tagged [of "''tutor''" x] by simp

lemma add_once:
  assumes g: "get_doc (db w) (uid (cb_from_user q)) = Some doc"
    and d: "cb_data q = ''add_'' @ x"
  shows "snd (button_handler q w) \<noteq> Raised"
    and "get_doc (db (fst (button_handler q w))) (uid (cb_from_user q))
           = Some (doc\<lparr>subjects := ArrayUnion [x] (subjects doc)\<rparr>)"
    and "\<exists>s. db w = Some s \<and> db (fst (button_handler q w))
           = Some (AList.update (uid (cb_from_user q))
                     (doc\<lparr>subjects := ArrayUnion [x] (subjects doc)\<rparr>) s)"
proof -
  from g obtain s where s: "db w = Some s" and m: "map_of s (uid (cb_from_user q)) = Some doc"
    by (auto simp add: get_doc_def split: option.splits)
  have sp: "split1 (cb_data q) = Some (''add'', x)"
    using split1_add [of x] by (simp add: d)
  have u: "update_subjects (db w) (uid (cb_from_user q)) (ArrayUnion [x])
      = Some (AList.update (uid (cb_from_user q))
                (doc\<lparr>subjects := ArrayUnion [x] (subjects doc)\<rparr>) s)"
    by (simp add: update_subjects_def s m)
  have bh: "button_handler q w
      = continuation (edit_message_text (cb_message q) (Added x) NoMarkup
          (w\<lparr>answered := Suc (answered w),
             db := Some (AList.update (uid (cb_from_user q))
                (doc\<lparr>subjects := ArrayUnion [x] (subjects doc)\<rparr>) s)\<rparr>))"
    by (simp add: button_handler_add [OF sp] u)
  show "snd (button_handler q w) \<noteq> Raised"
    by (simp add: bh continuation_result)
  show "get_doc (db (fst (button_handler q w))) (uid (cb_from_user q))
           = Some (doc\<lparr>subjects := ArrayUnion [x] (subjects doc)\<rparr>)"
    by (simp add: bh continuation_result edit_message_text_def get_doc_def update_conv')
  show "\<exists>s. db w = Some s \<and> db (fst (button_handler q w))
           = Some (AList.update (uid (cb_from_user q))
                     (doc\<lparr>subjects := ArrayUnion [x] (subjects doc)\<rparr>) s)"
    by (simp add: bh continuation_result edit_message_text_def s)
qed

text \<open>The subjects of an existing profile, and the routing of the tutor command.\<close>

lemma get_user_subjects_doc:
  "get_doc d i = Some doc \<Longrightarrow> get_user_subjects d i = subjects doc"
  by (auto simp add: get_doc_def get_user_subjects_def split: option.splits)

lemma dispatch_tutor_entry:
  assumes s: "tutor_state a = None" and d: "command_of (msg_text m) = Some ''tutor''"
  shows "dispatch (Message m) a
    = a\<lparr>the_world := fst (start_tutor_session m (the_world a)),
         tutor_state := conv_next None (snd (start_tutor_session m (the_world a)))\<rparr>"
proof -
  have n: "\<not> text_not_command (msg_text m)"
    using d by (simp add: text_not_command_def)
  have r: "conv_check reg_handler (reg_state a) (Message m) = None"
    using d n by (simp add: conv_check_def reg_handler_def split: option.splits)
  have l: "conv_check login_handler (login_state a) (Message m) = None"
    using d n by (simp add: conv_check_def login_handler_def split: option.splits)
  have c: "conv_check tutor_handler None (Message m) = Some (start_tutor_session m)"
    using d by (simp add: conv_check_def tutor_handler_def)
  show ?thesis
    using d by (simp add: dispatch_def r l s c split_beta)
qed

text \<open>Lower-casing, the email query, and the invariants of the store.\<close>

lemma lower_char_idem: "lower_char (lower_char c) = lower_char c"
  by (simp add: lower_char_def)

lemma lower_idem: "lower (lower s) = lower s"
  by (simp add: lower_def lower_char_idem)

lemma lower_example3: "lower ''C@d.com'' = ''c@d.com''"
  by code_simp

lemma lower_example4: "lower ''a@b.com'' = ''a@b.com''"
  by code_simp

lemma where_email_nonempty:
  "keys_distinct d \<Longrightarrow>
   (length (where_email d e) > 0) = (\<exists>j doc. get_doc d j = Some doc \<and> email doc = e)"
proof (cases d)
  case None
  then show ?thesis
    by (simp add: where_email_def get_doc_def)
next
  case (Some s)
  assume "keys_distinct d"
  with Some have dist: "distinct (map fst s)"
    by (simp add: keys_distinct_def)
  have "(length (where_email d e) > 0) = (\<exists>doc \<in> set (map snd s). email doc = e)"
    by (auto simp add: where_email_def Some filter_empty_conv)
  also have "\<dots> = (\<exists>j doc. (j, doc) \<in> set s \<and> email doc = e)"
    by force
  also have "\<dots> = (\<exists>j doc. map_of s j = Some doc \<and> email doc = e)"
    using dist by simp
  finally show ?thesis
    by (simp add: get_doc_def Some)
qed

lemma emails_lowered_doc:
  "emails_lowered d \<Longrightarrow> get_doc d j = Some doc \<Longrightarrow> lower (email doc) = email doc"
  by (auto simp add: emails_lowered_def get_doc_def list_all_iff split: option.splits
      dest!: map_of_SomeD)

lemma set_update_subset:
  "set (AList.update k v al) \<subseteq> insert (k, v) (set al)"
  by (induction al) auto

lemma emails_lowered_set_doc:
  "emails_lowered (Some s) \<Longrightarrow> lower (email doc) = email doc \<Longrightarrow>
   emails_lowered (Some (AList.update i doc s))"
  using set_update_subset [of i doc s]
  by (auto simp add: emails_lowered_def list_all_iff)

text \<open>What each branch of the universal handler does to the store and the chat.\<close>

lemma add_effect:
  assumes sp: "split1 (cb_data q) = Some (''add'', d)"
    and g: "get_doc (db w) (uid (cb_from_user q)) = Some doc"
  shows "snd (button_handler q w) \<noteq> Raised
    \<and> get_doc (db (fst (button_handler q w))) (uid (cb_from_user q))
        = Some (doc\<lparr>subjects := ArrayUnion [d] (subjects doc)\<rparr>)
    \<and> (\<forall>j. j \<noteq> uid (cb_from_user q) \<longrightarrow>
          get_doc (db (fst (button_handler q w))) j = get_doc (db w) j)
    \<and> sent (fst (button_handler q w))
        = (sent w)[cb_message q := \<lparr>body = Added d, reply_markup = NoMarkup\<rparr>]"
proof -
  from g obtain s where s: "db w = Some s" and m: "map_of s (uid (cb_from_user q)) = Some doc"
    by (auto simp add: get_doc_def split: option.splits)
  have u: "update_subjects (db w) (uid (cb_from_user q)) (ArrayUnion [d])
      = Some (AList.update (uid (cb_from_user q))
                (doc\<lparr>subjects := ArrayUnion [d] (subjects doc)\<rparr>) s)"
    by (simp add: update_subjects_def s m)
  have bh: "button_handler q w
      = continuation (edit_message_text (cb_message q) (Added d) NoMarkup
          (w\<lparr>answered := Suc (answered w),
             db := Some (AList.update (uid (cb_from_user q))
                (doc\<lparr>subjects := ArrayUnion [d] (subjects doc)\<rparr>) s)\<rparr>))"
    by (simp add: button_handler_add [OF sp] u)
  show ?thesis
    by (simp add: bh continuation_result edit_message_text_def get_doc_def update_conv' s)
qed

lemma remove_effect:
  assumes sp: "split1 (cb_data q) = Some (''remove'', d)"
    and g: "get_doc (db w) (uid (cb_from_user q)) = Some doc"
  shows "snd (button_handler q w) \<noteq> Raised
    \<and> get_doc (db (fst (button_handler q w))) (uid (cb_from_user q))
        = Some (doc\<lparr>subjects := ArrayRemove [d] (subjects doc)\<rparr>)
    \<and> (\<forall>j. j \<noteq> uid (cb_from_user q) \<longrightarrow>
          get_doc (db (fst (button_handler q w))) j = get_doc (db w) j)
    \<and> sent (fst (button_handler q w))
        = (sent w)[cb_message q :=
             (if ArrayRemove [d] (subjects doc) = []
              then \<lparr>body = RemovedNoneLeft d, reply_markup = NoMarkup\<rparr>
              else \<lparr>body = RemovedUpdated d,
                     reply_markup = InlineKeyboardMarkup
                       (remove_keyboard (ArrayRemove [d] (subjects doc)))\<rparr>)]"
proof -
  from g obtain s where s: "db w = Some s" and m: "map_of s (uid (cb_from_user q)) = Some doc"
    by (auto simp add: get_doc_def split: option.splits)
  let ?s' = "AList.update (uid (cb_from_user q))
                (doc\<lparr>subjects := ArrayRemove [d] (subjects doc)\<rparr>) s"
  have u: "update_subjects (db w) (uid (cb_from_user q)) (ArrayRemove [d]) = Some ?s'"
    by (simp add: update_subjects_def s m)
  have n: "get_user_subjects (Some ?s') (uid (cb_from_user q)) = ArrayRemove [d] (subjects doc)"
    by (simp add: get_user_subjects_def update_conv')
  have bh: "button_handler q w
      = continuation (edit_message_text (cb_message q)
          (if ArrayRemove [d] (subjects doc) = [] then RemovedNoneLeft d else RemovedUpdated d)
          (if ArrayRemove [d] (subjects doc) = [] then NoMarkup
           else InlineKeyboardMarkup (remove_keyboard (ArrayRemove [d] (subjects doc))))
          (w\<lparr>answered := Suc (answered w), db := Some ?s'\<rparr>))"
    by (simp add: button_handler_remove [OF sp] u n)
  show ?thesis
    by (simp add: bh continuation_result edit_message_text_def get_doc_def update_conv' s)
qed

lemma quiz_effect:
  assumes sp: "split1 (cb_data q) = Some (''quiz'', d)"
  shows "snd (button_handler q w) \<noteq> Raised
    \<and> db (fst (button_handler q w)) = db w
    \<and> sent (fst (button_handler q w))
        = ((sent w)[cb_message q := \<lparr>body = GeneratingQuiz d, reply_markup = NoMarkup\<rparr>]
            @ [\<lparr>body = generate_quiz_from_ai (ai_model w) d, reply_markup = MAIN_MENU_MARKUP\<rparr>])
          [cb_message q := \<lparr>body = QuizReady d, reply_markup = NoMarkup\<rparr>]"
  by (simp add: button_handler_quiz [OF sp] continuation_result edit_message_text_def
      reply_text_def)

lemma generate_quiz_cases:
  "(ai_model w = None \<longrightarrow> generate_quiz_from_ai (ai_model w) d = AIUnavailable)
   \<and> (\<forall>m t. ai_model w = Some m \<and> generate_content_async m (QuizPrompt d) = Some t \<longrightarrow>
         generate_quiz_from_ai (ai_model w) d = Verbatim t)
   \<and> (\<forall>m. ai_model w = Some m \<and> generate_content_async m (QuizPrompt d) = None \<longrightarrow>
         generate_quiz_from_ai (ai_model w) d = QuizError)"
  by (simp add: generate_quiz_from_ai_def)

lemma button_handler_under_flag:
  "snd (button_handler q (with_flag b w)) = snd (button_handler q w)"
  "db (fst (button_handler q (with_flag b w))) = db (fst (button_handler q w))"
  "sent (fst (button_handler q (with_flag b w))) = sent (fst (button_handler q w))"
  by (simp_all add: button_handler_flag with_flag_simps)

section \<open>The authentication gate: properties\<close>

text \<open>
  C1. For every wrapped operation and every session: when the session's flag is not
  true, the gate sends the login-required reply and returns \<open>END\<close> (which leaves a
  conversation idle), and the outcome does not depend on the wrapped operation, which
  is not run; when the flag is true, the gate's outcome is the outcome of the wrapped
  operation on the same update and world. This holds in particular for each of the
  four gated commands of the program.
\<close>

theorem login_required_gate:
  "(is_logged_in (user_data w) \<noteq> Some True \<longrightarrow>
      login_required func update w = rejection w
      \<and> login_required func update w = login_required func' update w
      \<and> conv_next st (snd (login_required func update w)) = None
      \<and> (\<forall>(cmd, body) \<in> set gated_operations. cmd update w = rejection w))
   \<and> (is_logged_in (user_data w) = Some True \<longrightarrow>
      login_required func update w = func update w
      \<and> (\<forall>(cmd, body) \<in> set gated_operations. cmd update w = body update w))"
  by (simp add: login_required_def rejection_def conv_next_def gated_operations_def
      add_subject_command_def my_subjects_command_def quiz_me_command_def
      start_tutor_session_def)

theorem login_required_gate_witness:
  "is_logged_in (user_data anon_world) \<noteq> Some True
   \<and> login_required start_tutor_body \<lparr>from_user = ann, msg_text = ''/tutor''\<rparr> anon_world
       = rejection anon_world
   \<and> (start_tutor_session, start_tutor_body) \<in> set gated_operations
   \<and> start_tutor_session \<lparr>from_user = ann, msg_text = ''/tutor''\<rparr> anon_world
       = rejection anon_world
   \<and> is_logged_in (user_data ann_world) = Some True
   \<and> login_required start_tutor_body \<lparr>from_user = ann, msg_text = ''/tutor''\<rparr> ann_world
       = start_tutor_body \<lparr>from_user = ann, msg_text = ''/tutor''\<rparr> ann_world
   \<and> start_tutor_session \<lparr>from_user = ann, msg_text = ''/tutor''\<rparr> ann_world
       = start_tutor_body \<lparr>from_user = ann, msg_text = ''/tutor''\<rparr> ann_world"
  using login_required_gate [of anon_world start_tutor_body
          "\<lparr>from_user = ann, msg_text = ''/tutor''\<rparr>" start_tutor_body None]
        login_required_gate [of ann_world start_tutor_body
          "\<lparr>from_user = ann, msg_text = ''/tutor''\<rparr>" start_tutor_body None]
  by (simp add: example_defs gated_operations_def)

section \<open>Login\<close>

text \<open>
  C2. For every caller and every supplied text, \<^verbatim>\<open>check_email_and_login\<close> returns
  \<open>END\<close> and leaves the store as it is. When a profile exists under the caller's
  identifier and its stored email equals the lower-cased text, the flag is set and the
  success reply sent; in every other case the session is left as it was and the
  failure reply sent. So a session that was not authenticated is authenticated
  afterwards exactly in the first case.
\<close>

theorem check_email_and_login_iff:
  "snd (check_email_and_login update w) = Returned END
   \<and> db (fst (check_email_and_login update w)) = db w
   \<and> ((\<exists>doc. get_doc (db w) (uid (from_user update)) = Some doc
          \<and> email doc = lower (msg_text update)) \<longrightarrow>
        user_data (fst (check_email_and_login update w))
          = (user_data w)\<lparr>is_logged_in := Some True\<rparr>
        \<and> sent (fst (check_email_and_login update w))
            = sent w @ [\<lparr>body = LoginSuccessful, reply_markup = MAIN_MENU_MARKUP\<rparr>])
   \<and> (\<not> (\<exists>doc. get_doc (db w) (uid (from_user update)) = Some doc
          \<and> email doc = lower (msg_text update)) \<longrightarrow>
        user_data (fst (check_email_and_login update w)) = user_data w
        \<and> sent (fst (check_email_and_login update w))
            = sent w @ [\<lparr>body = LoginIncorrect, reply_markup = NoMarkup\<rparr>])
   \<and> (is_logged_in (user_data w) \<noteq> Some True \<longrightarrow>
        (is_logged_in (user_data (fst (check_email_and_login update w))) = Some True
         \<longleftrightarrow> (\<exists>doc. get_doc (db w) (uid (from_user update)) = Some doc
                \<and> email doc = lower (msg_text update))))"
  by (auto simp add: check_email_and_login_def reply_text_def Let_def split: option.splits)

theorem check_email_and_login_iff_witness:
  "get_doc (db anon_world) (uid ann) = Some ann_doc
   \<and> email ann_doc = lower ''A@B.com''
   \<and> is_logged_in (user_data anon_world) \<noteq> Some True
   \<and> is_logged_in (user_data (fst (check_email_and_login
        \<lparr>from_user = ann, msg_text = ''A@B.com''\<rparr> anon_world))) = Some True
   \<and> email ann_doc \<noteq> lower ''x@b.com''
   \<and> user_data (fst (check_email_and_login
        \<lparr>from_user = ann, msg_text = ''x@b.com''\<rparr> anon_world)) = user_data anon_world
   \<and> sent (fst (check_email_and_login
        \<lparr>from_user = ann, msg_text = ''x@b.com''\<rparr> anon_world))
      = [\<lparr>body = LoginIncorrect, reply_markup = NoMarkup\<rparr>]"
  using check_email_and_login_iff [of "\<lparr>from_user = ann, msg_text = ''A@B.com''\<rparr>" anon_world]
        check_email_and_login_iff [of "\<lparr>from_user = ann, msg_text = ''x@b.com''\<rparr>" anon_world]
  by (simp add: example_defs get_doc_def lower_example lower_example2)

section \<open>The first tutoring question\<close>




section \<open>The universal selection dispatcher\<close>

text \<open>
  C5. For every selection event that \<^verbatim>\<open>button_handler\<close> handles without raising,
  the value returned is \<open>END\<close> exactly when the session holds no selected tutor
  subject once the branch of the action has run, and \<open>T_ASK_QUESTION\<close> otherwise.
  The handler raises exactly when the data has no underscore, or the action is add or
  remove and the store has no document for the caller (or is not connected). Only
  the tutor action changes the selected subject.
\<close>

theorem button_handler_verdict:
  "(snd (button_handler q w) \<noteq> Raised \<longrightarrow>
      snd (button_handler q w)
        = Returned (if tutor_subject (user_data (fst (button_handler q w))) = None
                    then END else T_ASK_QUESTION))
   \<and> (snd (button_handler q w) = Raised \<longleftrightarrow>
        split1 (cb_data q) = None
        \<or> (\<exists>d. (split1 (cb_data q) = Some (''add'', d)
                  \<or> split1 (cb_data q) = Some (''remove'', d))
                 \<and> get_doc (db w) (uid (cb_from_user q)) = None))
   \<and> ((\<forall>d. split1 (cb_data q) \<noteq> Some (''tutor'', d)) \<longrightarrow>
        tutor_subject (user_data (fst (button_handler q w))) = tutor_subject (user_data w))"
proof (cases "split1 (cb_data q)")
  case None
  then show ?thesis
    by (simp add: button_handler_unsplit)
next
  case (Some p)
  obtain action d where p: "p = (action, d)"
    by (cases p)
  consider (add) "action = ''add''" | (remove) "action = ''remove''"
    | (tutor) "action = ''tutor''" | (quiz) "action = ''quiz''"
    | (other) "action \<noteq> ''add''" "action \<noteq> ''remove''" "action \<noteq> ''tutor''"
        "action \<noteq> ''quiz''"
    by blast
  then show ?thesis
  proof cases
    case add
    with Some p have s: "split1 (cb_data q) = Some (''add'', d)" by simp
    show ?thesis
    proof (cases "update_subjects (db w) (uid (cb_from_user q)) (ArrayUnion [d])")
      case None
      then have bh: "button_handler q w = (w\<lparr>answered := Suc (answered w)\<rparr>, Raised)"
        by (simp add: button_handler_add [OF s])
      from None have "get_doc (db w) (uid (cb_from_user q)) = None"
        by (simp add: update_subjects_None)
      then show ?thesis
        using s by (simp add: bh)
    next
      case (Some s')
      then have "get_doc (db w) (uid (cb_from_user q)) \<noteq> None"
        using update_subjects_None [of "db w" "uid (cb_from_user q)" "ArrayUnion [d]"] by simp
      moreover from Some obtain w' where bh: "button_handler q w = continuation w'"
        and ts: "tutor_subject (user_data w') = tutor_subject (user_data w)"
        by (simp add: button_handler_add [OF s] edit_message_text_def)
      ultimately show ?thesis
        using s by (simp add: bh continuation_result ts)
    qed
  next
    case remove
    with Some p have s: "split1 (cb_data q) = Some (''remove'', d)" by simp
    show ?thesis
    proof (cases "update_subjects (db w) (uid (cb_from_user q)) (ArrayRemove [d])")
      case None
      then have bh: "button_handler q w = (w\<lparr>answered := Suc (answered w)\<rparr>, Raised)"
        by (simp add: button_handler_remove [OF s])
      from None have "get_doc (db w) (uid (cb_from_user q)) = None"
        by (simp add: update_subjects_None)
      then show ?thesis
        using s by (simp add: bh)
    next
      case (Some s')
      then have "get_doc (db w) (uid (cb_from_user q)) \<noteq> None"
        using update_subjects_None [of "db w" "uid (cb_from_user q)" "ArrayRemove [d]"] by simp
      moreover from Some obtain w' where bh: "button_handler q w = continuation w'"
        and ts: "tutor_subject (user_data w') = tutor_subject (user_data w)"
        by (simp add: button_handler_remove [OF s] edit_message_text_def)
      ultimately show ?thesis
        using s by (simp add: bh continuation_result ts)
    qed
  next
    case tutor
    with Some p have s: "split1 (cb_data q) = Some (''tutor'', d)" by simp
    show ?thesis
      using s by (simp add: button_handler_tutor [OF s] edit_message_text_def)
  next
    case quiz
    with Some p have s: "split1 (cb_data q) = Some (''quiz'', d)" by simp
    show ?thesis
      using s
      by (simp add: button_handler_quiz [OF s] continuation_result edit_message_text_def
          reply_text_def)
  next
    case other
    with Some p have s: "split1 (cb_data q) = Some (action, d)" by simp
    show ?thesis
      using s other by (simp add: button_handler_other [OF s other] continuation_result)
  qed
qed

theorem button_handler_verdict_witness:
  "snd (button_handler \<lparr>cb_from_user = ann, cb_message = 0, cb_data = ''add_Physics''\<rparr> ann_world)
     \<noteq> Raised
   \<and> snd (button_handler \<lparr>cb_from_user = ann, cb_message = 0, cb_data = ''add_Physics''\<rparr> ann_world)
     = Returned END
   \<and> snd (button_handler \<lparr>cb_from_user = ann, cb_message = 0, cb_data = ''quiz_Math''\<rparr>
          (the_world tutoring_app))
     = Returned T_ASK_QUESTION
   \<and> tutor_subject (user_data (fst (button_handler
          \<lparr>cb_from_user = ann, cb_message = 0, cb_data = ''quiz_Math''\<rparr> (the_world tutoring_app))))
     = Some ''Math''"
  using button_handler_verdict
          [of "\<lparr>cb_from_user = ann, cb_message = 0, cb_data = ''add_Physics''\<rparr>" ann_world]
        button_handler_verdict
          [of "\<lparr>cb_from_user = ann, cb_message = 0, cb_data = ''quiz_Math''\<rparr>" "the_world tutoring_app"]
  by (simp add: example_defs split1_def get_doc_def button_handler_def update_subjects_def
      ArrayUnion_def continuation_def edit_message_text_def reply_text_def
      generate_quiz_from_ai_def)

text \<open>
  C10. The universal handler behaves the same whatever the session's login flag is:
  run on two worlds that differ only in the flag, it returns the same value, leaves
  the same store and the same messages, and keeps the flag it found. \<^verbatim>\<open>main\<close>
  registers it for the add, remove and quiz selections without the gate: such a
  selection is routed to it in every state of the application. And under every
  value of the flag the work of the selection is done. An add selection makes the
  caller's subjects their array union with the subject and confirms it on the
  message of the button; a remove selection takes the subject out of them and puts
  the updated list, or the notice that none is left, on that message; both leave every
  other profile alone. A quiz selection announces the quiz on the message of the
  button, sends the text that \<^verbatim>\<open>generate_quiz_from_ai\<close> gives (the text of the
  completion service, or the unavailable or the error message) with the main menu,
  and marks the quiz as ready on the message of the button.
\<close>

theorem button_handler_ignores_login:
  "button_handler q (with_flag b w)
     = (with_flag b (fst (button_handler q w)), snd (button_handler q w))
   \<and> snd (button_handler q (with_flag b w)) = snd (button_handler q (with_flag b' w))
   \<and> db (fst (button_handler q (with_flag b w))) = db (fst (button_handler q (with_flag b' w)))
   \<and> sent (fst (button_handler q (with_flag b w))) = sent (fst (button_handler q (with_flag b' w)))
   \<and> is_logged_in (user_data (fst (button_handler q (with_flag b w)))) = b
   \<and> (list_ex (\<lambda>p. prefix p (cb_data q)) [''add_'', ''remove_'', ''quiz_''] \<longrightarrow>
        dispatch (CallbackQuery q) a
          = a\<lparr>the_world := fst (button_handler q (the_world a))\<rparr>)
   \<and> (split1 (cb_data q) = Some (''add'', d)
       \<and> get_doc (db w) (uid (cb_from_user q)) = Some doc \<longrightarrow>
        snd (button_handler q (with_flag b w)) \<noteq> Raised
        \<and> get_doc (db (fst (button_handler q (with_flag b w)))) (uid (cb_from_user q))
            = Some (doc\<lparr>subjects := ArrayUnion [d] (subjects doc)\<rparr>)
        \<and> (\<forall>j. j \<noteq> uid (cb_from_user q) \<longrightarrow>
              get_doc (db (fst (button_handler q (with_flag b w)))) j = get_doc (db w) j)
        \<and> sent (fst (button_handler q (with_flag b w)))
            = (sent w)[cb_message q := \<lparr>body = Added d, reply_markup = NoMarkup\<rparr>])
   \<and> (split1 (cb_data q) = Some (''remove'', d)
       \<and> get_doc (db w) (uid (cb_from_user q)) = Some doc \<longrightarrow>
        snd (button_handler q (with_flag b w)) \<noteq> Raised
        \<and> get_doc (db (fst (button_handler q (with_flag b w)))) (uid (cb_from_user q))
            = Some (doc\<lparr>subjects := ArrayRemove [d] (subjects doc)\<rparr>)
        \<and> (\<forall>j. j \<noteq> uid (cb_from_user q) \<longrightarrow>
              get_doc (db (fst (button_handler q (with_flag b w)))) j = get_doc (db w) j)
        \<and> sent (fst (button_handler q (with_flag b w)))
            = (sent w)[cb_message q :=
                 (if ArrayRemove [d] (subjects doc) = []
                  then \<lparr>body = RemovedNoneLeft d, reply_markup = NoMarkup\<rparr>
                  else \<lparr>body = RemovedUpdated d,
                         reply_markup = InlineKeyboardMarkup
                           (remove_keyboard (ArrayRemove [d] (subjects doc)))\<rparr>)])
   \<and> (split1 (cb_data q) = Some (''quiz'', d) \<longrightarrow>
        snd (button_handler q (with_flag b w)) \<noteq> Raised
        \<and> db (fst (button_handler q (with_flag b w))) = db w
        \<and> sent (fst (button_handler q (with_flag b w)))
            = ((sent w)[cb_message q := \<lparr>body = GeneratingQuiz d, reply_markup = NoMarkup\<rparr>]
                @ [\<lparr>body = generate_quiz_from_ai (ai_model w) d,
                    reply_markup = MAIN_MENU_MARKUP\<rparr>])
              [cb_message q := \<lparr>body = QuizReady d, reply_markup = NoMarkup\<rparr>]
        \<and> (ai_model w = None \<longrightarrow> generate_quiz_from_ai (ai_model w) d = AIUnavailable)
        \<and> (\<forall>m t. ai_model w = Some m \<and> generate_content_async m (QuizPrompt d) = Some t \<longrightarrow>
              generate_quiz_from_ai (ai_model w) d = Verbatim t)
        \<and> (\<forall>m. ai_model w = Some m \<and> generate_content_async m (QuizPrompt d) = None \<longrightarrow>
              generate_quiz_from_ai (ai_model w) d = QuizError))"
proof -
  have flag: "button_handler q (with_flag b w)
     = (with_flag b (fst (button_handler q w)), snd (button_handler q w))
   \<and> snd (button_handler q (with_flag b w)) = snd (button_handler q (with_flag b' w))
   \<and> db (fst (button_handler q (with_flag b w))) = db (fst (button_handler q (with_flag b' w)))
   \<and> sent (fst (button_handler q (with_flag b w))) = sent (fst (button_handler q (with_flag b' w)))
   \<and> is_logged_in (user_data (fst (button_handler q (with_flag b w)))) = b"
    by (simp add: button_handler_flag with_flag_simps)
  have route: "list_ex (\<lambda>p. prefix p (cb_data q)) [''add_'', ''remove_'', ''quiz_''] \<longrightarrow>
        dispatch (CallbackQuery q) a
          = a\<lparr>the_world := fst (button_handler q (the_world a))\<rparr>"
    by (simp add: dispatch_universal)
  have add: "split1 (cb_data q) = Some (''add'', d)
       \<and> get_doc (db w) (uid (cb_from_user q)) = Some doc \<longrightarrow>
        snd (button_handler q (with_flag b w)) \<noteq> Raised
        \<and> get_doc (db (fst (button_handler q (with_flag b w)))) (uid (cb_from_user q))
            = Some (doc\<lparr>subjects := ArrayUnion [d] (subjects doc)\<rparr>)
        \<and> (\<forall>j. j \<noteq> uid (cb_from_user q) \<longrightarrow>
              get_doc (db (fst (button_handler q (with_flag b w)))) j = get_doc (db w) j)
        \<and> sent (fst (button_handler q (with_flag b w)))
            = (sent w)[cb_message q := \<lparr>body = Added d, reply_markup = NoMarkup\<rparr>]"
    unfolding button_handler_under_flag using add_effect [of q d w doc] by blast
  have remove: "split1 (cb_data q) = Some (''remove'', d)
       \<and> get_doc (db w) (uid (cb_from_user q)) = Some doc \<longrightarrow>
        snd (button_handler q (with_flag b w)) \<noteq> Raised
        \<and> get_doc (db (fst (button_handler q (with_flag b w)))) (uid (cb_from_user q))
            = Some (doc\<lparr>subjects := ArrayRemove [d] (subjects doc)\<rparr>)
        \<and> (\<forall>j. j \<noteq> uid (cb_from_user q) \<longrightarrow>
              get_doc (db (fst (button_handler q (with_flag b w)))) j = get_doc (db w) j)
        \<and> sent (fst (button_handler q (with_flag b w)))
            = (sent w)[cb_message q :=
                 (if ArrayRemove [d] (subjects doc) = []
                  then \<lparr>body = RemovedNoneLeft d, reply_markup = NoMarkup\<rparr>
                  else \<lparr>body = RemovedUpdated d,
                         reply_markup = InlineKeyboardMarkup
                           (remove_keyboard (ArrayRemove [d] (subjects doc)))\<rparr>)]"
    unfolding button_handler_under_flag using remove_effect [of q d w doc] by blast
  have quiz: "split1 (cb_data q) = Some (''quiz'', d) \<longrightarrow>
        snd (button_handler q (with_flag b w)) \<noteq> Raised
        \<and> db (fst (button_handler q (with_flag b w))) = db w
        \<and> sent (fst (button_handler q (with_flag b w)))
            = ((sent w)[cb_message q := \<lparr>body = GeneratingQuiz d, reply_markup = NoMarkup\<rparr>]
                @ [\<lparr>body = generate_quiz_from_ai (ai_model w) d,
                    reply_markup = MAIN_MENU_MARKUP\<rparr>])
              [cb_message q := \<lparr>body = QuizReady d, reply_markup = NoMarkup\<rparr>]
        \<and> (ai_model w = None \<longrightarrow> generate_quiz_from_ai (ai_model w) d = AIUnavailable)
        \<and> (\<forall>m t. ai_model w = Some m \<and> generate_content_async m (QuizPrompt d) = Some t \<longrightarrow>
              generate_quiz_from_ai (ai_model w) d = Verbatim t)
        \<and> (\<forall>m. ai_model w = Some m \<and> generate_content_async m (QuizPrompt d) = None \<longrightarrow>
              generate_quiz_from_ai (ai_model w) d = QuizError)"
    unfolding button_handler_under_flag
    using quiz_effect [of q d w] generate_quiz_cases [of w d] by blast
  from flag route add remove quiz show ?thesis
    by (intro conjI) (elim conjE, assumption)+
qed

theorem button_handler_ignores_login_witness:
  "is_logged_in (user_data (with_flag None menu_world)) = None
   \<and> is_logged_in (user_data (with_flag (Some True) menu_world)) = Some True
   \<and> list_ex (\<lambda>p. prefix p ''add_Physics'') [''add_'', ''remove_'', ''quiz_'']
   \<and> split1 ''add_Physics'' = Some (''add'', ''Physics'')
   \<and> split1 ''remove_Math'' = Some (''remove'', ''Math'')
   \<and> split1 ''quiz_Math'' = Some (''quiz'', ''Math'')
   \<and> get_doc (db menu_world) (uid ann) = Some ann_doc
   \<and> get_user_subjects (db (fst (button_handler
        \<lparr>cb_from_user = ann, cb_message = 0, cb_data = ''add_Physics''\<rparr>
        (with_flag None menu_world)))) 7 = [''Math'', ''Physics'']
   \<and> get_user_subjects (db (fst (button_handler
        \<lparr>cb_from_user = ann, cb_message = 0, cb_data = ''add_Physics''\<rparr>
        (with_flag (Some True) menu_world)))) 7 = [''Math'', ''Physics'']
   \<and> sent (fst (button_handler
        \<lparr>cb_from_user = ann, cb_message = 0, cb_data = ''add_Physics''\<rparr>
        (with_flag None menu_world)))
       = [\<lparr>body = Added ''Physics'', reply_markup = NoMarkup\<rparr>]
   \<and> get_user_subjects (db (fst (button_handler
        \<lparr>cb_from_user = ann, cb_message = 0, cb_data = ''remove_Math''\<rparr>
        (with_flag None menu_world)))) 7 = []
   \<and> get_user_subjects (db (fst (button_handler
        \<lparr>cb_from_user = ann, cb_message = 0, cb_data = ''remove_Math''\<rparr>
        (with_flag (Some True) menu_world)))) 7 = []
   \<and> ai_model menu_world = Some answering_ai
   \<and> generate_content_async answering_ai (QuizPrompt ''Math'') = Some ''Q1''
   \<and> sent (fst (button_handler
        \<lparr>cb_from_user = ann, cb_message = 0, cb_data = ''quiz_Math''\<rparr>
        (with_flag None menu_world)))
       = [\<lparr>body = QuizReady ''Math'', reply_markup = NoMarkup\<rparr>,
          \<lparr>body = Verbatim ''Q1'', reply_markup = MAIN_MENU_MARKUP\<rparr>]
   \<and> sent (fst (button_handler
        \<lparr>cb_from_user = ann, cb_message = 0, cb_data = ''quiz_Math''\<rparr>
        (with_flag (Some True) menu_world)))
       = [\<lparr>body = QuizReady ''Math'', reply_markup = NoMarkup\<rparr>,
          \<lparr>body = Verbatim ''Q1'', reply_markup = MAIN_MENU_MARKUP\<rparr>]
   \<and> get_user_subjects (db (the_world (dispatch
        (CallbackQuery \<lparr>cb_from_user = ann, cb_message = 0, cb_data = ''add_Physics''\<rparr>)
        (idle menu_world)))) 7 = [''Math'', ''Physics'']"
  using button_handler_ignores_login
          [of "\<lparr>cb_from_user = ann, cb_message = 0, cb_data = ''add_Physics''\<rparr>" None menu_world
              "Some True" "idle menu_world" "''Physics''" ann_doc]
        button_handler_ignores_login
          [of "\<lparr>cb_from_user = ann, cb_message = 0, cb_data = ''remove_Math''\<rparr>" "Some True"
              menu_world None "idle menu_world" "''Math''" ann_doc]
        button_handler_ignores_login
          [of "\<lparr>cb_from_user = ann, cb_message = 0, cb_data = ''quiz_Math''\<rparr>" None menu_world
              "Some True" "idle menu_world" "''Math''" ann_doc]
  by (simp add: example_defs with_flag_def split1_def get_doc_def button_handler_def
      update_subjects_def ArrayUnion_def ArrayRemove_def get_user_subjects_def
      continuation_def edit_message_text_def reply_text_def generate_quiz_from_ai_def)

section \<open>The termination command\<close>

text \<open>
  C4. In every state of the tutor flow the command \<^verbatim>\<open>/done\<close> is routed to
  \<^verbatim>\<open>end_tutor_session\<close> (the fallback of the flow, modelled from the spec): the
  flow becomes idle, the session's chat handle and selected subject are removed, and
  the confirmation is sent with the main menu; the login flag and the store are
  unchanged.
\<close>

theorem done_ends_tutor_flow:
  "tutor_state a = Some s \<and> command_of (msg_text m) = Some ''done'' \<longrightarrow>
     tutor_state (dispatch (Message m) a) = None
     \<and> chat_session (user_data (the_world (dispatch (Message m) a))) = None
     \<and> tutor_subject (user_data (the_world (dispatch (Message m) a))) = None
     \<and> is_logged_in (user_data (the_world (dispatch (Message m) a)))
         = is_logged_in (user_data (the_world a))
     \<and> db (the_world (dispatch (Message m) a)) = db (the_world a)
     \<and> sent (the_world (dispatch (Message m) a))
         = sent (the_world a) @ [\<lparr>body = SessionEnded, reply_markup = MAIN_MENU_MARKUP\<rparr>]
     \<and> snd (end_tutor_session m (the_world a)) = Returned END"
  by (auto simp add: dispatch_done end_tutor_session_def reply_text_def)

theorem done_ends_tutor_flow_witness:
  "tutor_state tutoring_app = Some T_TUTORING
   \<and> command_of ''/done'' = Some ''done''
   \<and> chat_session (user_data (the_world tutoring_app)) \<noteq> None
   \<and> tutor_subject (user_data (the_world tutoring_app)) = Some ''Math''
   \<and> tutor_state (dispatch (Message \<lparr>from_user = ann, msg_text = ''/done''\<rparr>) tutoring_app) = None
   \<and> chat_session (user_data (the_world
        (dispatch (Message \<lparr>from_user = ann, msg_text = ''/done''\<rparr>) tutoring_app))) = None
   \<and> tutor_subject (user_data (the_world
        (dispatch (Message \<lparr>from_user = ann, msg_text = ''/done''\<rparr>) tutoring_app))) = None"
  using done_ends_tutor_flow [of tutoring_app T_TUTORING "\<lparr>from_user = ann, msg_text = ''/done''\<rparr>"]
  by (simp add: example_defs command_of_def)

section \<open>Subject management\<close>

text \<open>
  C9. For every profile and every subject, the add-subject selection applied twice
  gives the subject list that one application gives: the first application makes the
  list the array union with the subject (the set of subjects gains exactly that
  subject), and the second leaves the store as the first left it.
\<close>

theorem add_subject_idempotent:
  "get_doc (db w) (uid (cb_from_user q)) = Some doc \<and> cb_data q = ''add_'' @ x
   \<and> cb_data q' = ''add_'' @ x \<and> cb_from_user q' = cb_from_user q \<longrightarrow>
     snd (button_handler q w) \<noteq> Raised
     \<and> get_user_subjects (db (fst (button_handler q w))) (uid (cb_from_user q))
         = ArrayUnion [x] (subjects doc)
     \<and> set (ArrayUnion [x] (subjects doc)) = insert x (set (subjects doc))
     \<and> snd (button_handler q' (fst (button_handler q w))) \<noteq> Raised
     \<and> db (fst (button_handler q' (fst (button_handler q w)))) = db (fst (button_handler q w))
     \<and> get_user_subjects (db (fst (button_handler q' (fst (button_handler q w)))))
           (uid (cb_from_user q))
         = get_user_subjects (db (fst (button_handler q w))) (uid (cb_from_user q))"
proof (intro impI, elim conjE)
  assume g: "get_doc (db w) (uid (cb_from_user q)) = Some doc"
    and d: "cb_data q = ''add_'' @ x" and d': "cb_data q' = ''add_'' @ x"
    and u: "cb_from_user q' = cb_from_user q"
  let ?i = "uid (cb_from_user q)"
  let ?w1 = "fst (button_handler q w)"
  let ?doc1 = "doc\<lparr>subjects := ArrayUnion [x] (subjects doc)\<rparr>"
  have r1: "snd (button_handler q w) \<noteq> Raised"
    and g1: "get_doc (db ?w1) ?i = Some ?doc1"
    and s1: "\<exists>s. db w = Some s \<and> db ?w1 = Some (AList.update ?i ?doc1 s)"
    using add_once [OF g d] by blast+
  from s1 obtain s where s: "db w = Some s" and e1: "db ?w1 = Some (AList.update ?i ?doc1 s)"
    by blast
  have g1': "get_doc (db ?w1) (uid (cb_from_user q')) = Some ?doc1"
    using g1 u by simp
  have r2: "snd (button_handler q' ?w1) \<noteq> Raised"
    and s2: "\<exists>s'. db ?w1 = Some s' \<and> db (fst (button_handler q' ?w1))
        = Some (AList.update (uid (cb_from_user q'))
             (?doc1\<lparr>subjects := ArrayUnion [x] (subjects ?doc1)\<rparr>) s')"
    using add_once [OF g1' d'] by blast+
  have same: "?doc1\<lparr>subjects := ArrayUnion [x] (subjects ?doc1)\<rparr> = ?doc1"
    by (simp add: ArrayUnion_idem)
  have e2: "db (fst (button_handler q' ?w1)) = db ?w1"
    using s2 e1 u by (auto simp add: ArrayUnion_idem)
  have subs: "get_user_subjects (db ?w1) ?i = ArrayUnion [x] (subjects doc)"
    using g1 by (auto simp add: get_user_subjects_def get_doc_def split: option.splits)
  show "snd (button_handler q w) \<noteq> Raised
     \<and> get_user_subjects (db ?w1) ?i = ArrayUnion [x] (subjects doc)
     \<and> set (ArrayUnion [x] (subjects doc)) = insert x (set (subjects doc))
     \<and> snd (button_handler q' ?w1) \<noteq> Raised
     \<and> db (fst (button_handler q' ?w1)) = db ?w1
     \<and> get_user_subjects (db (fst (button_handler q' ?w1))) ?i = get_user_subjects (db ?w1) ?i"
    using r1 r2 e2 subs by (simp add: set_ArrayUnion)
qed

theorem add_subject_idempotent_witness:
  "get_doc (db anon_world) (uid ann) = Some ann_doc
   \<and> get_user_subjects (db (fst (button_handler
        \<lparr>cb_from_user = ann, cb_message = 0, cb_data = ''add_Physics''\<rparr> anon_world))) (uid ann)
      = [''Math'', ''Physics'']
   \<and> get_user_subjects (db (fst (button_handler
        \<lparr>cb_from_user = ann, cb_message = 1, cb_data = ''add_Physics''\<rparr>
        (fst (button_handler
           \<lparr>cb_from_user = ann, cb_message = 0, cb_data = ''add_Physics''\<rparr> anon_world)))))
        (uid ann)
      = [''Math'', ''Physics'']"
  using add_subject_idempotent
    [of anon_world "\<lparr>cb_from_user = ann, cb_message = 0, cb_data = ''add_Physics''\<rparr>" ann_doc
        "''Physics''" "\<lparr>cb_from_user = ann, cb_message = 1, cb_data = ''add_Physics''\<rparr>"]
  by (simp add: example_defs get_doc_def ArrayUnion_single)

section \<open>Entering the tutor and quiz flows\<close>

text \<open>
  C7, as the code has it. For every caller whose profile has no subjects: when the
  session is logged in, the tutor entry replies with its add-a-subject-first message
  and returns \<open>END\<close>, and the quiz entry replies with its add-a-subject-first message
  and returns; when the session is not logged in, the gate answers both with the
  login-required reply. In either case the tutor entry returns \<open>END\<close>, exactly one
  message is sent, it shows no selection options, and the tutor command leaves an idle
  tutor flow idle: the subject-selection state is not entered.
\<close>

theorem empty_subjects_short_circuit:
  "get_doc (db w) (uid (from_user update)) = Some doc \<and> subjects doc = [] \<longrightarrow>
     (is_logged_in (user_data w) = Some True \<longrightarrow>
        start_tutor_session update w = (reply_text TutorAddFirst MAIN_MENU_MARKUP w, Returned END)
        \<and> quiz_me_command update w = (reply_text QuizAddFirst MAIN_MENU_MARKUP w, Returned PyNone))
     \<and> (is_logged_in (user_data w) \<noteq> Some True \<longrightarrow>
        start_tutor_session update w = rejection w \<and> quiz_me_command update w = rejection w)
     \<and> snd (start_tutor_session update w) = Returned END
     \<and> snd (quiz_me_command update w) \<noteq> Returned T_SELECT_SUBJECT
     \<and> length (sent (fst (start_tutor_session update w))) = Suc (length (sent w))
     \<and> buttons_of (reply_markup (last (sent (fst (start_tutor_session update w))))) = []
     \<and> length (sent (fst (quiz_me_command update w))) = Suc (length (sent w))
     \<and> buttons_of (reply_markup (last (sent (fst (quiz_me_command update w))))) = []
     \<and> (tutor_state a = None \<and> the_world a = w \<and> command_of (msg_text update) = Some ''tutor''
          \<longrightarrow> tutor_state (dispatch (Message update) a) = None)"
proof (intro impI, elim conjE)
  assume g: "get_doc (db w) (uid (from_user update)) = Some doc" and e: "subjects doc = []"
  have subs: "get_user_subjects (db w) (uid (from_user update)) = []"
    using get_user_subjects_doc [OF g] e by simp
  have tb: "start_tutor_body update w = (reply_text TutorAddFirst MAIN_MENU_MARKUP w, Returned END)"
    by (simp add: start_tutor_body_def subs)
  have qb: "quiz_me_body update w = (reply_text QuizAddFirst MAIN_MENU_MARKUP w, Returned PyNone)"
    by (simp add: quiz_me_body_def subs)
  show "(is_logged_in (user_data w) = Some True \<longrightarrow>
        start_tutor_session update w = (reply_text TutorAddFirst MAIN_MENU_MARKUP w, Returned END)
        \<and> quiz_me_command update w = (reply_text QuizAddFirst MAIN_MENU_MARKUP w, Returned PyNone))
     \<and> (is_logged_in (user_data w) \<noteq> Some True \<longrightarrow>
        start_tutor_session update w = rejection w \<and> quiz_me_command update w = rejection w)
     \<and> snd (start_tutor_session update w) = Returned END
     \<and> snd (quiz_me_command update w) \<noteq> Returned T_SELECT_SUBJECT
     \<and> length (sent (fst (start_tutor_session update w))) = Suc (length (sent w))
     \<and> buttons_of (reply_markup (last (sent (fst (start_tutor_session update w))))) = []
     \<and> length (sent (fst (quiz_me_command update w))) = Suc (length (sent w))
     \<and> buttons_of (reply_markup (last (sent (fst (quiz_me_command update w))))) = []
     \<and> (tutor_state a = None \<and> the_world a = w \<and> command_of (msg_text update) = Some ''tutor''
          \<longrightarrow> tutor_state (dispatch (Message update) a) = None)"
    by (simp add: start_tutor_session_def quiz_me_command_def login_required_def tb qb
        rejection_def reply_text_def buttons_of_def dispatch_tutor_entry conv_next_def)
qed

theorem empty_subjects_short_circuit_witness:
  "get_doc (db bare_world) (uid ann) = Some bare_doc \<and> subjects bare_doc = []
   \<and> is_logged_in (user_data bare_world) = Some True
   \<and> map body (sent (fst (start_tutor_session \<lparr>from_user = ann, msg_text = ''/tutor''\<rparr> bare_world)))
       = [TutorAddFirst]
   \<and> map body (sent (fst (quiz_me_command \<lparr>from_user = ann, msg_text = ''/quizme''\<rparr> bare_world)))
       = [QuizAddFirst]
   \<and> tutor_state (idle bare_world) = None
   \<and> command_of ''/tutor'' = Some ''tutor''
   \<and> tutor_state (dispatch (Message \<lparr>from_user = ann, msg_text = ''/tutor''\<rparr>) (idle bare_world))
       = None"
  using empty_subjects_short_circuit
    [of bare_world "\<lparr>from_user = ann, msg_text = ''/tutor''\<rparr>" bare_doc "idle bare_world"]
    empty_subjects_short_circuit
    [of bare_world "\<lparr>from_user = ann, msg_text = ''/quizme''\<rparr>" bare_doc "idle bare_world"]
  by (simp add: example_defs get_doc_def command_of_def reply_text_def)

text \<open>
  C7 as stated fails for a caller who is not logged in: with a profile without
  subjects, both entries reply with the login-required message, not with an
  add-a-subject-first message.
\<close>

theorem empty_subjects_unauthenticated_counterexample:
  "get_doc (db bare_anon_world) (uid ann) = Some bare_doc \<and> subjects bare_doc = []
   \<and> map body (sent (fst (start_tutor_session \<lparr>from_user = ann, msg_text = ''/tutor''\<rparr>
        bare_anon_world))) = [LoginRequired]
   \<and> map body (sent (fst (quiz_me_command \<lparr>from_user = ann, msg_text = ''/quizme''\<rparr>
        bare_anon_world))) = [LoginRequired]
   \<and> LoginRequired \<noteq> TutorAddFirst \<and> LoginRequired \<noteq> QuizAddFirst"
  by (simp add: example_defs get_doc_def start_tutor_session_def quiz_me_command_def
      login_required_def reply_text_def)

section \<open>The selected tutor subject\<close>

text \<open>
  C8, as the code has it. A tutor selection records the payload of its callback data
  as the selected subject and returns \<open>T_ASK_QUESTION\<close> without reading the store.
  When the data is one of the options that the tutor entry presented, and the store
  at the selection is the store the entry read, the recorded subject is one of the
  subjects of the caller's profile.
\<close>

theorem tutor_selection_records_payload:
  "(split1 (cb_data q) = Some (''tutor'', x) \<longrightarrow>
      snd (button_handler q w) = Returned T_ASK_QUESTION
      \<and> tutor_subject (user_data (fst (button_handler q w))) = Some x
      \<and> db (fst (button_handler q w)) = db w)
   \<and> (cb_data q \<in> set (buttons_of (reply_markup (last (sent
          (fst (start_tutor_session update w0))))))
       \<and> uid (cb_from_user q) = uid (from_user update) \<and> db w = db w0 \<longrightarrow>
      snd (button_handler q w) = Returned T_ASK_QUESTION
      \<and> (\<exists>s. tutor_subject (user_data (fst (button_handler q w))) = Some s
             \<and> s \<in> set (get_user_subjects (db w) (uid (cb_from_user q)))))"
proof (rule conjI)
  show "split1 (cb_data q) = Some (''tutor'', x) \<longrightarrow>
      snd (button_handler q w) = Returned T_ASK_QUESTION
      \<and> tutor_subject (user_data (fst (button_handler q w))) = Some x
      \<and> db (fst (button_handler q w)) = db w"
  proof (rule impI)
    assume sp: "split1 (cb_data q) = Some (''tutor'', x)"
    show "snd (button_handler q w) = Returned T_ASK_QUESTION
      \<and> tutor_subject (user_data (fst (button_handler q w))) = Some x
      \<and> db (fst (button_handler q w)) = db w"
      by (simp add: button_handler_tutor [OF sp] edit_message_text_def)
  qed
next
  show "cb_data q \<in> set (buttons_of (reply_markup (last (sent
          (fst (start_tutor_session update w0))))))
       \<and> uid (cb_from_user q) = uid (from_user update) \<and> db w = db w0 \<longrightarrow>
      snd (button_handler q w) = Returned T_ASK_QUESTION
      \<and> (\<exists>s. tutor_subject (user_data (fst (button_handler q w))) = Some s
             \<and> s \<in> set (get_user_subjects (db w) (uid (cb_from_user q))))"
  proof (rule impI)
    assume h: "cb_data q \<in> set (buttons_of (reply_markup (last (sent
          (fst (start_tutor_session update w0))))))
       \<and> uid (cb_from_user q) = uid (from_user update) \<and> db w = db w0"
    let ?subs = "get_user_subjects (db w0) (uid (from_user update))"
    from h have "cb_data q \<in> (\<lambda>s. ''tutor_'' @ s) ` set ?subs"
      by (auto simp add: start_tutor_session_def login_required_def start_tutor_body_def
          reply_text_def buttons_of_def Let_def comp_def split: if_splits)
    then obtain s where s: "s \<in> set ?subs" and d: "cb_data q = ''tutor_'' @ s"
      by blast
    have sp: "split1 (cb_data q) = Some (''tutor'', s)"
      using split1_tutor [of s] by (simp add: d)
    have "tutor_subject (user_data (fst (button_handler q w))) = Some s"
      by (simp add: button_handler_tutor [OF sp] edit_message_text_def)
    moreover have "s \<in> set (get_user_subjects (db w) (uid (cb_from_user q)))"
      using s h by simp
    ultimately show "snd (button_handler q w) = Returned T_ASK_QUESTION
      \<and> (\<exists>s. tutor_subject (user_data (fst (button_handler q w))) = Some s
             \<and> s \<in> set (get_user_subjects (db w) (uid (cb_from_user q))))"
      by (simp add: button_handler_tutor [OF sp])
  qed
qed

theorem tutor_selection_records_payload_witness:
  "split1 ''tutor_Math'' = Some (''tutor'', ''Math'')
   \<and> ''tutor_Math'' \<in> set (buttons_of (reply_markup (last (sent
        (fst (start_tutor_session \<lparr>from_user = ann, msg_text = ''/tutor''\<rparr> ann_world))))))
   \<and> tutor_subject (user_data (fst (button_handler
        \<lparr>cb_from_user = ann, cb_message = 0, cb_data = ''tutor_Math''\<rparr> ann_world))) = Some ''Math''
   \<and> ''Math'' \<in> set (get_user_subjects (db ann_world) (uid ann))"
  using tutor_selection_records_payload
    [of "\<lparr>cb_from_user = ann, cb_message = 0, cb_data = ''tutor_Math''\<rparr>" "''Math''" ann_world
        "\<lparr>from_user = ann, msg_text = ''/tutor''\<rparr>" ann_world]
  by (simp add: example_defs split1_def start_tutor_session_def login_required_def
      start_tutor_body_def get_user_subjects_def reply_text_def buttons_of_def
      button_handler_def edit_message_text_def)

text \<open>
  C8 as stated fails on a reachable session: a logged-in user with the one subject
  Math opens the tutor entry, opens her subject list, removes Math there, and then
  presses the Math button that the tutor entry's message still shows. Every event is
  possible where it occurs. The flow then awaits the first question with Math
  selected, and the profile has no subject.
\<close>

theorem stale_selection_counterexample:
  "map_option tutor_state (run ann stale_selection (idle ann_world)) = Some (Some T_ASK_QUESTION)
   \<and> map_option selected_subject (run ann stale_selection (idle ann_world)) = Some (Some ''Math'')
   \<and> map_option (profile_subjects ann) (run ann stale_selection (idle ann_world)) = Some []"
  by code_simp

section \<open>Registration\<close>

text \<open>
  C3, as the code has it. On a well-formed store, \<^verbatim>\<open>get_email_and_register\<close>
  returns \<open>END\<close> and leaves the session as it is. When some profile, under any
  identifier, holds the lower-cased text as its email, the already-registered reply is
  sent and the store is unchanged. Otherwise, when the store is connected, the
  caller's identifier gets a profile with the lower-cased text as email, the caller's
  username (or \<^verbatim>\<open>N/A\<close> when the caller has none) and no subjects, every other
  profile is kept, and the confirmation is sent. Without a store the write raises:
  the could-not-save reply is sent and there is still no store. On a store whose
  emails are lower-cased the test for a taken email is the comparison up to case, and
  registration keeps the emails lower-cased.
\<close>

theorem registration_behaviour:
  assumes wf: "keys_distinct (db w)"
  shows "snd (get_email_and_register update w) = Returned END
   \<and> user_data (fst (get_email_and_register update w)) = user_data w
   \<and> ((\<exists>j doc. get_doc (db w) j = Some doc \<and> email doc = lower (msg_text update)) \<longrightarrow>
        db (fst (get_email_and_register update w)) = db w
        \<and> sent (fst (get_email_and_register update w))
            = sent w @ [\<lparr>body = AlreadyRegistered, reply_markup = NoMarkup\<rparr>])
   \<and> (\<not> (\<exists>j doc. get_doc (db w) j = Some doc \<and> email doc = lower (msg_text update))
        \<and> db w \<noteq> None \<longrightarrow>
        get_doc (db (fst (get_email_and_register update w))) (uid (from_user update))
          = Some \<lparr>email = lower (msg_text update),
                  telegram_username = username_or_na (username (from_user update)),
                  subjects = []\<rparr>
        \<and> (\<forall>j. j \<noteq> uid (from_user update) \<longrightarrow>
              get_doc (db (fst (get_email_and_register update w))) j = get_doc (db w) j)
        \<and> keys_distinct (db (fst (get_email_and_register update w)))
        \<and> sent (fst (get_email_and_register update w))
            = sent w @ [\<lparr>body = RegistrationComplete, reply_markup = NoMarkup\<rparr>])
   \<and> (db w = None \<longrightarrow>
        db (fst (get_email_and_register update w)) = None
        \<and> sent (fst (get_email_and_register update w))
            = sent w @ [\<lparr>body = CouldntSave, reply_markup = NoMarkup\<rparr>])
   \<and> (emails_lowered (db w) \<longrightarrow>
        emails_lowered (db (fst (get_email_and_register update w)))
        \<and> ((\<exists>j doc. get_doc (db w) j = Some doc \<and> email doc = lower (msg_text update))
             = (\<exists>j doc. get_doc (db w) j = Some doc
                  \<and> lower (email doc) = lower (msg_text update))))"
proof -
  let ?e = "lower (msg_text update)"
  let ?taken = "\<exists>j doc. get_doc (db w) j = Some doc \<and> email doc = ?e"
  have q: "(length (where_email (db w) ?e) > 0) = ?taken"
    using wf by (rule where_email_nonempty)
  have ci: "emails_lowered (db w) \<Longrightarrow>
      ?taken = (\<exists>j doc. get_doc (db w) j = Some doc \<and> lower (email doc) = ?e)"
    using emails_lowered_doc [of "db w"] by metis
  show ?thesis
  proof (cases ?taken)
    case True
    then have r: "get_email_and_register update w = (reply_text AlreadyRegistered NoMarkup w, Returned END)"
      using q by (simp add: get_email_and_register_def Let_def)
    from True have nn: "db w \<noteq> None"
      by (auto simp add: get_doc_def split: option.splits)
    show ?thesis
      using True ci nn by (auto simp add: r reply_text_def)
  next
    case False
    with q have nq: "where_email (db w) ?e = []"
      by simp
    show ?thesis
    proof (cases "db w")
      case None
      have r: "get_email_and_register update w = (reply_text CouldntSave NoMarkup w, Returned END)"
        using nq by (simp add: get_email_and_register_def Let_def set_doc_def None)
      show ?thesis
        using False None ci by (auto simp add: r reply_text_def)
    next
      case (Some s)
      let ?doc = "\<lparr>email = ?e, telegram_username = username_or_na (username (from_user update)),
                    subjects = []\<rparr>"
      have r: "get_email_and_register update w
          = (reply_text RegistrationComplete NoMarkup
               (w\<lparr>db := Some (AList.update (uid (from_user update)) ?doc s)\<rparr>), Returned END)"
        using nq by (simp add: get_email_and_register_def Let_def set_doc_def Some)
      have dist: "distinct (map fst s)"
        using wf Some by (simp add: keys_distinct_def)
      have low: "emails_lowered (db w) \<Longrightarrow>
          emails_lowered (Some (AList.update (uid (from_user update)) ?doc s))"
        using emails_lowered_set_doc [of s ?doc "uid (from_user update)"] Some
        by (simp add: lower_idem)
      show ?thesis
        using False Some ci low dist
        by (auto simp add: r reply_text_def get_doc_def update_conv' keys_distinct_def
            distinct_update)
    qed
  qed
qed

theorem registration_behaviour_witness:
  "keys_distinct (db anon_world)
   \<and> snd (get_email_and_register \<lparr>from_user = bob, msg_text = ''A@B.com''\<rparr> anon_world)
       = Returned END
   \<and> get_doc (db anon_world) 7 = Some ann_doc
   \<and> email ann_doc = lower ''A@B.com''
   \<and> db (fst (get_email_and_register \<lparr>from_user = bob, msg_text = ''A@B.com''\<rparr> anon_world))
       = db anon_world
   \<and> db anon_world \<noteq> None
   \<and> where_email (db anon_world) (lower ''C@d.com'') = []
   \<and> get_doc (db (fst (get_email_and_register \<lparr>from_user = bob, msg_text = ''C@d.com''\<rparr>
        anon_world))) 9
       = Some \<lparr>email = ''c@d.com'', telegram_username = ''N/A'', subjects = []\<rparr>
   \<and> keys_distinct (db offline_world)
   \<and> db offline_world = None
   \<and> sent (fst (get_email_and_register \<lparr>from_user = bob, msg_text = ''C@d.com''\<rparr>
        offline_world))
       = [\<lparr>body = CouldntSave, reply_markup = NoMarkup\<rparr>]
   \<and> emails_lowered (db anon_world)"
proof -
  have wf: "keys_distinct (db anon_world)"
    by (simp add: example_defs keys_distinct_def)
  have "snd (get_email_and_register \<lparr>from_user = bob, msg_text = ''A@B.com''\<rparr> anon_world)
       = Returned END"
    using registration_behaviour [OF wf, of "\<lparr>from_user = bob, msg_text = ''A@B.com''\<rparr>"]
    by (rule conjunct1)
  then show ?thesis
    by (simp add: example_defs keys_distinct_def emails_lowered_def get_doc_def lower_example
        lower_example3 lower_example4 username_or_na_def get_email_and_register_def
        where_email_def set_doc_def reply_text_def Let_def)
qed

text \<open>
  C3 as stated fails in two places. Without a store no profile holds the email, and
  yet no profile is created: the reply is the could-not-save message. And for a caller
  without a username the profile that is created holds \<^verbatim>\<open>N/A\<close> as username.
\<close>

theorem registration_counterexample:
  "where_email (db offline_world) (lower ''C@d.com'') = []
   \<and> db (fst (get_email_and_register \<lparr>from_user = ann, msg_text = ''C@d.com''\<rparr> offline_world))
       = None
   \<and> map body (sent (fst (get_email_and_register \<lparr>from_user = ann, msg_text = ''C@d.com''\<rparr>
        offline_world))) = [CouldntSave]
   \<and> where_email (db anon_world) (lower ''C@d.com'') = []
   \<and> username bob = None
   \<and> get_doc (db (fst (get_email_and_register \<lparr>from_user = bob, msg_text = ''C@d.com''\<rparr>
        anon_world))) (uid bob)
       = Some \<lparr>email = ''c@d.com'', telegram_username = ''N/A'', subjects = []\<rparr>"
  by (simp add: example_defs get_doc_def lower_example3 username_or_na_def
      get_email_and_register_def where_email_def set_doc_def reply_text_def Let_def)

end
